theory Spec2Isabelle
  imports Main "HOL-Library.Word"
begin

section \<open>RoadArchive: the format-dispatch layer over zip, tar and gzip\<close>

text \<open>
  The development embeds \<^verbatim>\<open>src/roadarchive/archive.py\<close>: the format tags, the two
  suffix detectors, the read facade \<^verbatim>\<open>Archive\<close> and the write facade
  \<^verbatim>\<open>ArchiveBuilder\<close>. Exceptions are values of the type \<open>error\<close>; a function that
  can raise returns \<open>error + 'a\<close>, and a function that touches the disk takes the
  filesystem and returns it updated next to its result, so that what a failing call
  leaves behind is part of its value.
\<close>

subsection \<open>Strings, paths and bytes\<close>

type_synonym byte = "8 word"
type_synonym bytes = "byte list"

text \<open>
  A path is the string the caller passed. \<^verbatim>\<open>pathlib\<close> reads it as a sequence of
  parts: the pieces between slashes, without the empty ones and the single dots; a
  leading slash makes it absolute. Exactly two leading slashes are kept when the path is
  printed; the operating system takes them for the root.
\<close>

type_synonym path = string

text \<open>
  A character is a code point below 256. \<^verbatim>\<open>str.lower\<close> changes the letters A to Z
  and the upper-case letters of the Latin-1 range, each to the code point 32 above it.
\<close>

definition upper_letters :: string where
  "upper_letters =
     ''ABCDEFGHIJKLMNOPQRSTUVWXYZ'' @
     [
        CHR 0xC0, CHR 0xC1, CHR 0xC2, CHR 0xC3, CHR 0xC4, CHR 0xC5, CHR 0xC6, CHR 0xC7,
        CHR 0xC8, CHR 0xC9, CHR 0xCA, CHR 0xCB, CHR 0xCC, CHR 0xCD, CHR 0xCE, CHR 0xCF,
        CHR 0xD0, CHR 0xD1, CHR 0xD2, CHR 0xD3, CHR 0xD4, CHR 0xD5, CHR 0xD6, CHR 0xD8,
        CHR 0xD9, CHR 0xDA, CHR 0xDB, CHR 0xDC, CHR 0xDD, CHR 0xDE]"

definition lower_letters :: string where
  "lower_letters =
     ''abcdefghijklmnopqrstuvwxyz'' @
     [
        CHR 0xE0, CHR 0xE1, CHR 0xE2, CHR 0xE3, CHR 0xE4, CHR 0xE5, CHR 0xE6, CHR 0xE7,
        CHR 0xE8, CHR 0xE9, CHR 0xEA, CHR 0xEB, CHR 0xEC, CHR 0xED, CHR 0xEE, CHR 0xEF,
        CHR 0xF0, CHR 0xF1, CHR 0xF2, CHR 0xF3, CHR 0xF4, CHR 0xF5, CHR 0xF6, CHR 0xF8,
        CHR 0xF9, CHR 0xFA, CHR 0xFB, CHR 0xFC, CHR 0xFD, CHR 0xFE]"

definition lower_char :: "char \<Rightarrow> char" where
  "lower_char c =
     (case map_of (zip upper_letters lower_letters) c of
        Some d \<Rightarrow> d
      | None \<Rightarrow> c)"

definition lower :: "string \<Rightarrow> string" where
  "lower s = map lower_char s"

text \<open>\<^verbatim>\<open>str.endswith\<close>.\<close>

definition endswith :: "string \<Rightarrow> string \<Rightarrow> bool" where
  "endswith s suf = (length suf \<le> length s \<and> drop (length s - length suf) s = suf)"

text \<open>\<^verbatim>\<open>str.split('/')\<close> and its inverse.\<close>

fun split_slash :: "string \<Rightarrow> string list" where
  "split_slash [] = [[]]"
| "split_slash (c # cs) =
     (if c = CHR ''/'' then [] # split_slash cs
      else (case split_slash cs of
              [] \<Rightarrow> [[c]]
            | x # xs \<Rightarrow> (c # x) # xs))"

fun join_slash :: "string list \<Rightarrow> string" where
  "join_slash [] = []"
| "join_slash [x] = x"
| "join_slash (x # y # ys) = x @ ''/'' @ join_slash (y # ys)"

text \<open>The parts of a path, whether it is absolute, and the string \<^verbatim>\<open>pathlib\<close> prints.\<close>

definition parts :: "path \<Rightarrow> string list" where
  "parts p = filter (\<lambda>c. c \<noteq> [] \<and> c \<noteq> ''.'') (split_slash p)"

definition is_absolute :: "path \<Rightarrow> bool" where
  "is_absolute p = (case p of [] \<Rightarrow> False | c # cs \<Rightarrow> c = CHR ''/'')"

definition root_of :: "path \<Rightarrow> string" where
  "root_of p =
     (let n = length (takeWhile (\<lambda>c. c = CHR ''/'') p) in
      if n = 0 then [] else if n = 2 then ''//'' else ''/'')"

definition render :: "string \<Rightarrow> string list \<Rightarrow> path" where
  "render root ps =
     (if root \<noteq> [] then root @ join_slash ps
      else if ps = [] then ''.''
      else join_slash ps)"

text \<open>\<^verbatim>\<open>Path.name\<close>: the last part, or the empty string when there is none.\<close>

definition path_name :: "path \<Rightarrow> string" where
  "path_name p = (case rev (parts p) of [] \<Rightarrow> [] | n # ns \<Rightarrow> n)"

text \<open>
  \<^verbatim>\<open>Path.stem\<close>: the name up to its last dot, when that dot is neither the first nor
  the last character of the name; the whole name otherwise.
\<close>

definition rfind_dot :: "string \<Rightarrow> nat option" where
  "rfind_dot s =
     (if CHR ''.'' \<in> set s
      then Some (length s - 1 - length (takeWhile (\<lambda>c. c \<noteq> CHR ''.'') (rev s)))
      else None)"

definition path_stem :: "path \<Rightarrow> string" where
  "path_stem p =
     (let name = path_name p in
      case rfind_dot name of
        None \<Rightarrow> name
      | Some i \<Rightarrow> if 0 < i \<and> i < length name - 1 then take i name else name)"

text \<open>
  The \<^verbatim>\<open>/\<close> of \<^verbatim>\<open>pathlib\<close>: the parts of the right operand follow those of the
  left one; an absolute right operand replaces the left one.
\<close>

definition path_join :: "path \<Rightarrow> string \<Rightarrow> path" where
  "path_join d m =
     (if is_absolute m then render (root_of m) (parts m)
      else render (root_of d) (parts d @ parts m))"

subsection \<open>Data model\<close>

datatype ArchiveFormat = ZIP | TAR | TAR_GZ | TAR_BZ2 | TAR_XZ | GZIP

datatype error =
    ArchiveError string
  | KeyError string
  | FileNotFoundError
  | FileExistsError
  | IsADirectoryError
  | BadZipFile
  | ReadError
  | BadGzipFile
  | IndexError
  | NotADirectoryError
  | StructError
  | ValueError
  | OSError

record ArchiveEntry =
  name :: string
  size :: nat
  compressed_size :: nat
  modified :: "nat option"
  is_dir :: bool
  is_file :: bool
  mode :: nat

record Archive =
  path :: path
  format :: ArchiveFormat

subsection \<open>Format detection\<close>

text \<open>\<^verbatim>\<open>Archive._detect_format\<close>, as a function of \<^verbatim>\<open>self.path.name\<close>.\<close>

definition Archive_detect_format :: "string \<Rightarrow> error + ArchiveFormat" where
  "Archive_detect_format pname =
     (let name = lower pname in
      if endswith name ''.zip'' then Inr ZIP
      else if endswith name ''.tar.gz'' \<or> endswith name ''.tgz'' then Inr TAR_GZ
      else if endswith name ''.tar.bz2'' \<or> endswith name ''.tbz2'' then Inr TAR_BZ2
      else if endswith name ''.tar.xz'' \<or> endswith name ''.txz'' then Inr TAR_XZ
      else if endswith name ''.tar'' then Inr TAR
      else if endswith name ''.gz'' then Inr GZIP
      else Inl (ArchiveError (''Unknown archive format: '' @ name)))"

text \<open>\<^verbatim>\<open>Archive.__init__\<close>.\<close>

definition Archive_init :: "path \<Rightarrow> error + Archive" where
  "Archive_init p =
     (case Archive_detect_format (path_name p) of
        Inl e \<Rightarrow> Inl e
      | Inr f \<Rightarrow> Inr \<lparr>path = p, format = f\<rparr>)"

text \<open>\<^verbatim>\<open>ArchiveBuilder._detect_format\<close>, as a function of \<^verbatim>\<open>self.path.name\<close>.\<close>

definition ArchiveBuilder_detect_format :: "string \<Rightarrow> ArchiveFormat" where
  "ArchiveBuilder_detect_format pname =
     (let name = lower pname in
      if endswith name ''.zip'' then ZIP
      else if endswith name ''.tar.gz'' \<or> endswith name ''.tgz'' then TAR_GZ
      else if endswith name ''.tar.bz2'' then TAR_BZ2
      else if endswith name ''.tar.xz'' then TAR_XZ
      else if endswith name ''.tar'' then TAR
      else ZIP)"

subsection \<open>The filesystem\<close>

text \<open>
  The disk is a tree of nodes under absolute keys, a key being the list of names from
  the root down, together with the current directory. The root, the current directory
  and the directories above it always exist. There are no symbolic links, no devices
  and no permissions on this disk; \<open>refused\<close> is the exception the operating system
  raises for a path it does not take, whatever is on the disk (a NUL character in it, a
  name that is too long). A file holds a \<open>content\<close>, which says what the
  collaborators make of it (their byte layouts are outside this development): a
  compression codec wraps a content, so that a \<^verbatim>\<open>.tar.gz\<close> file is
  \<open>Gz (TarData ms)\<close> and a plain gzip file is \<open>Gz (Bytes bs)\<close>. The time stamp of
  a member is a number: that of a zip member counts from the earliest moment a zip header
  can hold, that of a tar member from the epoch.
\<close>

record ZipInfo =
  filename :: string
  file_size :: nat
  compress_size :: nat
  date_time :: nat
  zdata :: bytes

datatype tar_type = REGTYPE | DIRTYPE | SYMTYPE | LNKTYPE | FIFOTYPE

record TarInfo =
  tname :: string
  tsize :: nat
  mtime :: nat
  ttype :: tar_type
  linkname :: string
  tmode :: nat
  tdata :: bytes

datatype content =
    Bytes bytes
  | ZipData "ZipInfo list"
  | TarData "TarInfo list"
  | Gz content
  | Bz2 content
  | Xz content

datatype node = Dir | File content

record fsys =
  cwd :: "string list"
  tree :: "string list \<Rightarrow> node option"
  refused :: "bool \<Rightarrow> string list \<Rightarrow> error option"

definition node_at :: "fsys \<Rightarrow> string list \<Rightarrow> node option" where
  "node_at fs k = (if take (length k) (cwd fs) = k then Some Dir else tree fs k)"

definition put :: "fsys \<Rightarrow> string list \<Rightarrow> node \<Rightarrow> fsys" where
  "put fs k n = fs\<lparr>tree := (tree fs)(k \<mapsto> n)\<rparr>"

text \<open>
  Path resolution by the operating system: every step is taken from an existing
  directory, and \<^verbatim>\<open>..\<close> steps to the parent (the root is its own parent). The result is
  the key the path names, whether or not anything is there.
\<close>

fun walk :: "fsys \<Rightarrow> string list \<Rightarrow> string list \<Rightarrow> error + string list" where
  "walk fs cur [] = Inr cur"
| "walk fs cur (c # cs) =
     (case node_at fs cur of
        None \<Rightarrow> Inl FileNotFoundError
      | Some (File x) \<Rightarrow> Inl NotADirectoryError
      | Some Dir \<Rightarrow> walk fs (if c = ''..'' then butlast cur else cur @ [c]) cs)"

definition resolve_parts :: "fsys \<Rightarrow> bool \<Rightarrow> string list \<Rightarrow> error + string list" where
  "resolve_parts fs ab ps =
     (case refused fs ab ps of
        Some e \<Rightarrow> Inl e
      | None \<Rightarrow> walk fs (if ab then [] else cwd fs) ps)"

definition resolve :: "fsys \<Rightarrow> path \<Rightarrow> error + string list" where
  "resolve fs p = resolve_parts fs (is_absolute p) (parts p)"

text \<open>Opening an existing file for reading.\<close>

definition open_rb :: "fsys \<Rightarrow> path \<Rightarrow> error + content" where
  "open_rb fs p =
     (case resolve fs p of
        Inl e \<Rightarrow> Inl e
      | Inr k \<Rightarrow>
          (case node_at fs k of
             None \<Rightarrow> Inl FileNotFoundError
           | Some Dir \<Rightarrow> Inl IsADirectoryError
           | Some (File c) \<Rightarrow> Inr c))"

text \<open>
  Opening a file for writing creates or empties it. The result is the key of the open
  file, under which closing it stores what was written, and the disk with the empty file.
\<close>

definition open_wb :: "fsys \<Rightarrow> path \<Rightarrow> error + string list \<times> fsys" where
  "open_wb fs p =
     (case resolve fs p of
        Inl e \<Rightarrow> Inl e
      | Inr k \<Rightarrow>
          (case node_at fs k of
             Some Dir \<Rightarrow> Inl IsADirectoryError
           | _ \<Rightarrow> Inr (k, put fs k (File (Bytes [])))))"

text \<open>\<^verbatim>\<open>os.mkdir\<close> and \<^verbatim>\<open>Path.is_dir\<close>, on the parts of a path.\<close>

definition os_mkdir :: "fsys \<Rightarrow> bool \<Rightarrow> string list \<Rightarrow> error + fsys" where
  "os_mkdir fs ab ps =
     (case resolve_parts fs ab ps of
        Inl e \<Rightarrow> Inl e
      | Inr k \<Rightarrow>
          (case node_at fs k of
             None \<Rightarrow> Inr (put fs k Dir)
           | Some n \<Rightarrow> Inl FileExistsError))"

definition is_dir_parts :: "fsys \<Rightarrow> bool \<Rightarrow> string list \<Rightarrow> bool" where
  "is_dir_parts fs ab ps =
     (case resolve_parts fs ab ps of
        Inl e \<Rightarrow> False
      | Inr k \<Rightarrow> node_at fs k = Some Dir)"

text \<open>
  \<^verbatim>\<open>Path.mkdir(parents=True, exist_ok=True)\<close>, by recursion on the parts taken from
  the last one: try \<^verbatim>\<open>os.mkdir\<close>; when a directory on the way is missing, make the
  parent in the same manner and try once more; any other failure is forgiven when the
  path is a directory already. The result is the exception raised, if any, and the disk
  with the directories made until then.
\<close>

fun mkdir_rev :: "fsys \<Rightarrow> bool \<Rightarrow> string list \<Rightarrow> error option \<times> fsys" where
  "mkdir_rev fs ab [] =
     (case os_mkdir fs ab [] of
        Inr fs' \<Rightarrow> (None, fs')
      | Inl e \<Rightarrow>
          if e = FileNotFoundError then (Some e, fs)
          else if is_dir_parts fs ab [] then (None, fs)
          else (Some e, fs))"
| "mkdir_rev fs ab (c # rps) =
     (case os_mkdir fs ab (rev (c # rps)) of
        Inr fs' \<Rightarrow> (None, fs')
      | Inl e \<Rightarrow>
          if e = FileNotFoundError then
            (case mkdir_rev fs ab rps of
               (Some e', fs') \<Rightarrow> (Some e', fs')
             | (None, fs') \<Rightarrow>
                 (case os_mkdir fs' ab (rev (c # rps)) of
                    Inr fs'' \<Rightarrow> (None, fs'')
                  | Inl e2 \<Rightarrow>
                      if e2 \<noteq> FileNotFoundError \<and> is_dir_parts fs' ab (rev (c # rps))
                      then (None, fs')
                      else (Some e2, fs')))
          else if is_dir_parts fs ab (rev (c # rps)) then (None, fs)
          else (Some e, fs))"

definition mkdir_p :: "fsys \<Rightarrow> path \<Rightarrow> error option \<times> fsys" where
  "mkdir_p fs d = mkdir_rev fs (is_absolute d) (rev (parts d))"

subsection \<open>The container collaborators\<close>

text \<open>
  The zip and tar readers and writers and the gzip codec come from the standard library
  (CPython 3.11). What they answer from an archive is modelled here; what they do on
  the disk when they extract a member or read a queued file is taken from the
  environment below.
\<close>

text \<open>\<^verbatim>\<open>zipfile.ZipFile(path, "r")\<close>: the member headers, in stored order.\<close>

definition zipfile_open_r :: "fsys \<Rightarrow> path \<Rightarrow> error + ZipInfo list" where
  "zipfile_open_r fs p =
     (case open_rb fs p of
        Inl e \<Rightarrow> Inl e
      | Inr (ZipData infos) \<Rightarrow> Inr infos
      | Inr _ \<Rightarrow> Inl BadZipFile)"

text \<open>
  \<^verbatim>\<open>tarfile.open(path, mode)\<close> for the four read modes. The plain mode \<^verbatim>\<open>"r"\<close>
  reads through any one compression layer; \<^verbatim>\<open>"r:gz"\<close>, \<^verbatim>\<open>"r:bz2"\<close> and
  \<^verbatim>\<open>"r:xz"\<close> insist on their own.
\<close>

fun tar_of :: "content \<Rightarrow> error + TarInfo list" where
  "tar_of (TarData ms) = Inr ms"
| "tar_of _ = Inl ReadError"

fun tar_decode :: "string \<Rightarrow> content \<Rightarrow> error + TarInfo list" where
  "tar_decode m (TarData ms) = (if m = ''r'' then Inr ms else Inl ReadError)"
| "tar_decode m (Gz c) = (if m = ''r'' \<or> m = ''r:gz'' then tar_of c else Inl ReadError)"
| "tar_decode m (Bz2 c) = (if m = ''r'' \<or> m = ''r:bz2'' then tar_of c else Inl ReadError)"
| "tar_decode m (Xz c) = (if m = ''r'' \<or> m = ''r:xz'' then tar_of c else Inl ReadError)"
| "tar_decode m _ = Inl ReadError"

definition tarfile_open_r :: "fsys \<Rightarrow> path \<Rightarrow> string \<Rightarrow> error + TarInfo list" where
  "tarfile_open_r fs p m =
     (case open_rb fs p of
        Inl e \<Rightarrow> Inl e
      | Inr c \<Rightarrow> tar_decode m c)"

text \<open>\<^verbatim>\<open>ZipInfo.is_dir\<close>: a zip entry is a directory when its name ends in a slash.\<close>

definition zipinfo_is_dir :: "ZipInfo \<Rightarrow> bool" where
  "zipinfo_is_dir info = endswith (filename info) ''/''"

text \<open>
  \<^verbatim>\<open>ZipFile.getinfo\<close> looks a name up in a dictionary filled in stored order, so
  the last member of that name answers.
\<close>

definition zipfile_getinfo :: "ZipInfo list \<Rightarrow> string \<Rightarrow> error + ZipInfo" where
  "zipfile_getinfo infos n =
     (case find (\<lambda>i. filename i = n) (rev infos) of
        None \<Rightarrow> Inl (KeyError n)
      | Some i \<Rightarrow> Inr i)"

text \<open>\<^verbatim>\<open>ZipFile.read\<close>: the stored bytes of the member, whatever its kind.\<close>

definition zipfile_read :: "ZipInfo list \<Rightarrow> string \<Rightarrow> error + bytes" where
  "zipfile_read infos n =
     (case zipfile_getinfo infos n of
        Inl e \<Rightarrow> Inl e
      | Inr i \<Rightarrow> Inr (zdata i))"

text \<open>
  \<^verbatim>\<open>TarFile.getmember\<close> strips trailing slashes from the name asked for and returns
  the last member stored under the result.
\<close>

definition rstrip_slash :: "string \<Rightarrow> string" where
  "rstrip_slash s = rev (dropWhile (\<lambda>c. c = CHR ''/'') (rev s))"

definition tarfile_getmember :: "TarInfo list \<Rightarrow> string \<Rightarrow> error + TarInfo" where
  "tarfile_getmember infos n =
     (case find (\<lambda>i. tname i = rstrip_slash n) (rev infos) of
        None \<Rightarrow> Inl (KeyError n)
      | Some i \<Rightarrow> Inr i)"

text \<open>
  Reading a gzip stream to its end: the payload of a gzip file, nothing for an empty
  file, \<^verbatim>\<open>BadGzipFile\<close> for anything else.
\<close>

fun gzip_read :: "content \<Rightarrow> error + content" where
  "gzip_read (Gz c) = Inr c"
| "gzip_read (Bytes bs) = (if bs = [] then Inr (Bytes []) else Inl BadGzipFile)"
| "gzip_read _ = Inl BadGzipFile"

text \<open>
  What the collaborators take from their surroundings or do on the disk themselves. The
  clock and the size of the deflated data go into the header \<^verbatim>\<open>ZipFile.writestr\<close>
  writes. \<^verbatim>\<open>ZipFile.write\<close> and \<^verbatim>\<open>TarFile.add\<close> read a queued file from the
  disk and give the members to append. \<open>zip_extract_member\<close> and
  \<open>tar_extract_member\<close> put one member of an archive below a destination and give
  the exception they raise, if any, and the disk they leave. \<open>tar_link_stream\<close> is
  what \<^verbatim>\<open>TarFile.extractfile\<close> answers for a symbolic or hard link. All of these are
  parameters: every property below holds whatever they are.
\<close>

record env =
  clock :: nat
  deflated_size :: "bytes \<Rightarrow> nat"
  zipfile_write :: "fsys \<Rightarrow> path \<Rightarrow> string \<Rightarrow> error + ZipInfo"
  tarfile_add :: "fsys \<Rightarrow> path \<Rightarrow> string \<Rightarrow> error + TarInfo list"
  zip_extract_member :: "ZipInfo \<Rightarrow> path \<Rightarrow> fsys \<Rightarrow> error option \<times> fsys"
  tar_extract_member :: "TarInfo list \<Rightarrow> TarInfo \<Rightarrow> path \<Rightarrow> fsys \<Rightarrow> error option \<times> fsys"
  tar_link_stream :: "TarInfo list \<Rightarrow> TarInfo \<Rightarrow> error + bytes option"

text \<open>
  \<^verbatim>\<open>TarFile.extractfile\<close>: a stream for a regular file, the stream of its target for
  a link, \<^verbatim>\<open>None\<close> for a member without data.
\<close>

definition tarfile_extractfile :: "env \<Rightarrow> TarInfo list \<Rightarrow> TarInfo \<Rightarrow> error + bytes option" where
  "tarfile_extractfile E infos info =
     (if ttype info = REGTYPE then Inr (Some (tdata info))
      else if ttype info = SYMTYPE \<or> ttype info = LNKTYPE then tar_link_stream E infos info
      else Inr None)"

text \<open>
  \<^verbatim>\<open>ZipFile.extract\<close> and \<^verbatim>\<open>TarFile.extract\<close> of a named member, and the two
  \<^verbatim>\<open>extractall\<close>, which stop at the first failure. \<^verbatim>\<open>ZipFile.extractall\<close> goes
  through the names of the archive in stored order and extracts each by name, so that
  of several members under one name the last is extracted each time;
  \<^verbatim>\<open>TarFile.extractall\<close> goes through the members themselves.
\<close>

definition zipfile_extract :: "env \<Rightarrow> ZipInfo list \<Rightarrow> string \<Rightarrow> path \<Rightarrow> fsys \<Rightarrow> error option \<times> fsys" where
  "zipfile_extract E infos m dest fs =
     (case zipfile_getinfo infos m of
        Inl e \<Rightarrow> (Some e, fs)
      | Inr i \<Rightarrow> zip_extract_member E i dest fs)"

definition tarfile_extract :: "env \<Rightarrow> TarInfo list \<Rightarrow> string \<Rightarrow> path \<Rightarrow> fsys \<Rightarrow> error option \<times> fsys" where
  "tarfile_extract E infos m dest fs =
     (case tarfile_getmember infos m of
        Inl e \<Rightarrow> (Some e, fs)
      | Inr i \<Rightarrow> tar_extract_member E infos i dest fs)"

fun zip_extract_names :: "env \<Rightarrow> ZipInfo list \<Rightarrow> string list \<Rightarrow> path \<Rightarrow> fsys \<Rightarrow> error option \<times> fsys" where
  "zip_extract_names E infos [] dest fs = (None, fs)"
| "zip_extract_names E infos (n # rest) dest fs =
     (case zipfile_extract E infos n dest fs of
        (Some e, fs') \<Rightarrow> (Some e, fs')
      | (None, fs') \<Rightarrow> zip_extract_names E infos rest dest fs')"

definition zipfile_extractall :: "env \<Rightarrow> ZipInfo list \<Rightarrow> path \<Rightarrow> fsys \<Rightarrow> error option \<times> fsys" where
  "zipfile_extractall E infos dest fs = zip_extract_names E infos (map filename infos) dest fs"

fun tar_extract_each :: "env \<Rightarrow> TarInfo list \<Rightarrow> TarInfo list \<Rightarrow> path \<Rightarrow> fsys \<Rightarrow> error option \<times> fsys" where
  "tar_extract_each E infos [] dest fs = (None, fs)"
| "tar_extract_each E infos (i # rest) dest fs =
     (case tar_extract_member E infos i dest fs of
        (Some e, fs') \<Rightarrow> (Some e, fs')
      | (None, fs') \<Rightarrow> tar_extract_each E infos rest dest fs')"

definition tarfile_extractall :: "env \<Rightarrow> TarInfo list \<Rightarrow> path \<Rightarrow> fsys \<Rightarrow> error option \<times> fsys" where
  "tarfile_extractall E infos dest fs = tar_extract_each E infos infos dest fs"

subsection \<open>The read facade\<close>

text \<open>\<^verbatim>\<open>Archive._tar_mode\<close>.\<close>

definition Archive_tar_mode :: "Archive \<Rightarrow> string \<Rightarrow> string" where
  "Archive_tar_mode a base =
     (if format a = TAR_GZ then base @ '':gz''
      else if format a = TAR_BZ2 then base @ '':bz2''
      else if format a = TAR_XZ then base @ '':xz''
      else base)"

text \<open>The test \<^verbatim>\<open>self.format in (TAR, TAR_GZ, TAR_BZ2, TAR_XZ)\<close>.\<close>

definition is_tar_format :: "ArchiveFormat \<Rightarrow> bool" where
  "is_tar_format f = (f = TAR \<or> f = TAR_GZ \<or> f = TAR_BZ2 \<or> f = TAR_XZ)"

text \<open>
  The entry \<^verbatim>\<open>Archive.list\<close> makes of a zip member header and of a tar member
  header. A time stamp is a number here; fields the call does not pass keep the defaults
  of the dataclass.
\<close>

definition zip_entry :: "ZipInfo \<Rightarrow> ArchiveEntry" where
  "zip_entry info =
     \<lparr>name = filename info, size = file_size info, compressed_size = compress_size info,
      modified = Some (date_time info), is_dir = zipinfo_is_dir info,
      is_file = (\<not> zipinfo_is_dir info), mode = 0\<rparr>"

definition tar_entry :: "TarInfo \<Rightarrow> ArchiveEntry" where
  "tar_entry info =
     \<lparr>name = tname info, size = tsize info, compressed_size = 0,
      modified = Some (mtime info), is_dir = (ttype info = DIRTYPE),
      is_file = (ttype info = REGTYPE), mode = tmode info\<rparr>"

text \<open>\<^verbatim>\<open>Archive.list\<close>.\<close>

definition Archive_list :: "Archive \<Rightarrow> fsys \<Rightarrow> error + ArchiveEntry list" where
  "Archive_list a fs =
     (if format a = ZIP then
        (case zipfile_open_r fs (path a) of
           Inl e \<Rightarrow> Inl e
         | Inr infos \<Rightarrow> Inr (map zip_entry infos))
      else if is_tar_format (format a) then
        (case tarfile_open_r fs (path a) (Archive_tar_mode a ''r'') of
           Inl e \<Rightarrow> Inl e
         | Inr infos \<Rightarrow> Inr (map tar_entry infos))
      else Inr [])"

text \<open>
  The two loops \<^verbatim>\<open>for m in members\<close> of \<^verbatim>\<open>Archive.extract\<close>. A member that
  fails stops the loop; what was written before stays on disk.
\<close>

fun zip_extract_members ::
  "env \<Rightarrow> ZipInfo list \<Rightarrow> path \<Rightarrow> string list \<Rightarrow> path list \<Rightarrow> fsys \<Rightarrow> (error + path list) \<times> fsys" where
  "zip_extract_members E infos dest [] extracted fs = (Inr extracted, fs)"
| "zip_extract_members E infos dest (m # ms) extracted fs =
     (case zipfile_extract E infos m dest fs of
        (Some e, fs') \<Rightarrow> (Inl e, fs')
      | (None, fs') \<Rightarrow> zip_extract_members E infos dest ms (extracted @ [path_join dest m]) fs')"

fun tar_extract_members ::
  "env \<Rightarrow> TarInfo list \<Rightarrow> path \<Rightarrow> string list \<Rightarrow> path list \<Rightarrow> fsys \<Rightarrow> (error + path list) \<times> fsys" where
  "tar_extract_members E infos dest [] extracted fs = (Inr extracted, fs)"
| "tar_extract_members E infos dest (m # ms) extracted fs =
     (case tarfile_extract E infos m dest fs of
        (Some e, fs') \<Rightarrow> (Inl e, fs')
      | (None, fs') \<Rightarrow> tar_extract_members E infos dest ms (extracted @ [path_join dest m]) fs')"

text \<open>
  The test \<^verbatim>\<open>if members:\<close>. \<^verbatim>\<open>None\<close> and the empty list are false; a list that
  is true is the one the loop runs over.
\<close>

definition truthy :: "string list option \<Rightarrow> string list option" where
  "truthy members =
     (case members of
        None \<Rightarrow> None
      | Some [] \<Rightarrow> None
      | Some (m # ms) \<Rightarrow> Some (m # ms))"

text \<open>
  \<^verbatim>\<open>Archive.extract\<close>. The gzip branch opens the archive, then opens the output
  file, and only then reads the archive to its end.
\<close>

definition Archive_extract ::
  "env \<Rightarrow> Archive \<Rightarrow> path \<Rightarrow> string list option \<Rightarrow> fsys \<Rightarrow> (error + path list) \<times> fsys" where
  "Archive_extract E a dest members fs =
     (case mkdir_p fs dest of
        (Some e, fs1) \<Rightarrow> (Inl e, fs1)
      | (None, fs1) \<Rightarrow>
          if format a = ZIP then
            (case zipfile_open_r fs1 (path a) of
               Inl e \<Rightarrow> (Inl e, fs1)
             | Inr infos \<Rightarrow>
                 (case truthy members of
                    Some ms \<Rightarrow> zip_extract_members E infos dest ms [] fs1
                  | None \<Rightarrow>
                      (case zipfile_extractall E infos dest fs1 of
                         (Some e, fs2) \<Rightarrow> (Inl e, fs2)
                       | (None, fs2) \<Rightarrow>
                           (Inr (map (\<lambda>n. path_join dest n) (map filename infos)), fs2))))
          else if is_tar_format (format a) then
            (case tarfile_open_r fs1 (path a) (Archive_tar_mode a ''r'') of
               Inl e \<Rightarrow> (Inl e, fs1)
             | Inr infos \<Rightarrow>
                 (case truthy members of
                    Some ms \<Rightarrow> tar_extract_members E infos dest ms [] fs1
                  | None \<Rightarrow>
                      (case tarfile_extractall E infos dest fs1 of
                         (Some e, fs2) \<Rightarrow> (Inl e, fs2)
                       | (None, fs2) \<Rightarrow>
                           (Inr (map (\<lambda>m. path_join dest (tname m)) infos), fs2))))
          else if format a = GZIP then
            (let out_path = path_join dest (path_stem (path a)) in
             case open_rb fs1 (path a) of
               Inl e \<Rightarrow> (Inl e, fs1)
             | Inr c0 \<Rightarrow>
                 (case open_wb fs1 out_path of
                    Inl e \<Rightarrow> (Inl e, fs1)
                  | Inr (k, fs2) \<Rightarrow>
                      (case open_rb fs2 (path a) of
                         Inl e \<Rightarrow> (Inl e, fs2)
                       | Inr c \<Rightarrow>
                           (case gzip_read c of
                              Inl e \<Rightarrow> (Inl e, fs2)
                            | Inr payload \<Rightarrow> (Inr [out_path], put fs2 k (File payload))))))
          else (Inr [], fs1))"

text \<open>\<^verbatim>\<open>Archive.extract_file\<close>.\<close>

definition Archive_extract_file ::
  "env \<Rightarrow> Archive \<Rightarrow> string \<Rightarrow> path \<Rightarrow> fsys \<Rightarrow> (error + path) \<times> fsys" where
  "Archive_extract_file E a n dest fs =
     (case Archive_extract E a dest (Some [n]) fs of
        (Inl e, fs') \<Rightarrow> (Inl e, fs')
      | (Inr [], fs') \<Rightarrow> (Inl IndexError, fs')
      | (Inr (p # ps), fs') \<Rightarrow> (Inr p, fs'))"

text \<open>\<^verbatim>\<open>Archive.read\<close>.\<close>

definition Archive_read :: "env \<Rightarrow> Archive \<Rightarrow> string \<Rightarrow> fsys \<Rightarrow> error + bytes" where
  "Archive_read E a n fs =
     (if format a = ZIP then
        (case zipfile_open_r fs (path a) of
           Inl e \<Rightarrow> Inl e
         | Inr infos \<Rightarrow> zipfile_read infos n)
      else if is_tar_format (format a) then
        (case tarfile_open_r fs (path a) (Archive_tar_mode a ''r'') of
           Inl e \<Rightarrow> Inl e
         | Inr infos \<Rightarrow>
             (case tarfile_getmember infos n of
                Inl e \<Rightarrow> Inl e
              | Inr member \<Rightarrow>
                  (case tarfile_extractfile E infos member of
                     Inl e \<Rightarrow> Inl e
                   | Inr (Some data) \<Rightarrow> Inr data
                   | Inr None \<Rightarrow> Inl (ArchiveError (''Cannot read '' @ n)))))
      else Inl (ArchiveError (''Cannot read '' @ n)))"

subsection \<open>The write facade\<close>

datatype source = SrcPath path | SrcBytes bytes

record ArchiveBuilder =
  b_path :: path
  b_format :: ArchiveFormat
  files :: "(source \<times> string) list"

text \<open>
  \<^verbatim>\<open>ArchiveBuilder.__init__\<close>. A format tag is a non-empty string and so always true:
  \<^verbatim>\<open>format or self._detect_format()\<close> detects only when no format was passed.
\<close>

definition ArchiveBuilder_init :: "path \<Rightarrow> ArchiveFormat option \<Rightarrow> ArchiveBuilder" where
  "ArchiveBuilder_init p fmt =
     \<lparr>b_path = p,
      b_format = (case fmt of Some f \<Rightarrow> f | None \<Rightarrow> ArchiveBuilder_detect_format (path_name p)),
      files = []\<rparr>"

text \<open>\<^verbatim>\<open>ArchiveBuilder.add_file\<close> and \<^verbatim>\<open>ArchiveBuilder.add_bytes\<close>.\<close>

definition add_file :: "ArchiveBuilder \<Rightarrow> path \<Rightarrow> string option \<Rightarrow> ArchiveBuilder" where
  "add_file b p arcname =
     b\<lparr>files := files b @
        [(SrcPath p, (case arcname of None \<Rightarrow> path_name p
                      | Some n \<Rightarrow> if n = [] then path_name p else n))]\<rparr>"

definition add_bytes :: "ArchiveBuilder \<Rightarrow> bytes \<Rightarrow> string \<Rightarrow> ArchiveBuilder" where
  "add_bytes b data arcname = b\<lparr>files := files b @ [(SrcBytes data, arcname)]\<rparr>"

text \<open>
  \<^verbatim>\<open>ZipFile.writestr\<close>. \<^verbatim>\<open>ZipInfo(filename)\<close> ends the name at its first NUL
  character; the test of the name's last character then fails on an empty name
  (\<^verbatim>\<open>IndexError\<close>); and the header has sixteen bits for the length of the name in
  UTF-8, in which a character above 127 takes two bytes.
\<close>

definition sanitize_filename :: "string \<Rightarrow> string" where
  "sanitize_filename n = takeWhile (\<lambda>c. c \<noteq> CHR 0x00) n"

definition utf8_length :: "string \<Rightarrow> nat" where
  "utf8_length s = length s + length (filter digit7 s)"

definition zipfile_writestr :: "env \<Rightarrow> string \<Rightarrow> bytes \<Rightarrow> error + ZipInfo" where
  "zipfile_writestr E arcname data =
     (let fn = sanitize_filename arcname in
      if fn = [] then Inl IndexError
      else if 65535 < utf8_length fn then Inl StructError
      else Inr \<lparr>filename = fn, file_size = length data,
                compress_size = deflated_size E data, date_time = clock E, zdata = data\<rparr>)"

text \<open>
  \<^verbatim>\<open>tarfile.TarInfo(name)\<close> and \<^verbatim>\<open>TarFile.addfile\<close>, which copies \<^verbatim>\<open>info.size\<close>
  bytes. A name of at most a hundred ASCII characters goes into the header field, which
  a NUL character ends; any other name goes into an extended header, from which it is
  read back without its trailing slashes.
\<close>

definition TarInfo_init :: "string \<Rightarrow> TarInfo" where
  "TarInfo_init n =
     \<lparr>tname = n, tsize = 0, mtime = 0, ttype = REGTYPE, linkname = [], tmode = 420, tdata = []\<rparr>"

definition tar_header_name :: "string \<Rightarrow> string" where
  "tar_header_name n =
     (if list_all (\<lambda>c. \<not> digit7 c) n \<and> length n \<le> 100
      then takeWhile (\<lambda>c. c \<noteq> CHR 0x00) n
      else rstrip_slash n)"

definition tarfile_addfile :: "TarInfo \<Rightarrow> bytes \<Rightarrow> TarInfo" where
  "tarfile_addfile info data =
     info\<lparr>tname := tar_header_name (tname info), tdata := take (tsize info) data\<rparr>"

text \<open>
  The two loops \<^verbatim>\<open>for src, arcname in self._files\<close> of \<^verbatim>\<open>ArchiveBuilder.build\<close>.
  They return the members written and the exception that stopped them, if any.
\<close>

fun zip_write_files ::
  "env \<Rightarrow> fsys \<Rightarrow> (source \<times> string) list \<Rightarrow> ZipInfo list \<Rightarrow> error option \<times> ZipInfo list" where
  "zip_write_files E fs [] written = (None, written)"
| "zip_write_files E fs ((SrcBytes data, arcname) # rest) written =
     (case zipfile_writestr E arcname data of
        Inl e \<Rightarrow> (Some e, written)
      | Inr info \<Rightarrow> zip_write_files E fs rest (written @ [info]))"
| "zip_write_files E fs ((SrcPath p, arcname) # rest) written =
     (case zipfile_write E fs p arcname of
        Inl e \<Rightarrow> (Some e, written)
      | Inr info \<Rightarrow> zip_write_files E fs rest (written @ [info]))"

fun tar_write_files ::
  "env \<Rightarrow> fsys \<Rightarrow> (source \<times> string) list \<Rightarrow> TarInfo list \<Rightarrow> error option \<times> TarInfo list" where
  "tar_write_files E fs [] written = (None, written)"
| "tar_write_files E fs ((SrcBytes data, arcname) # rest) written =
     tar_write_files E fs rest
       (written @ [tarfile_addfile ((TarInfo_init arcname)\<lparr>tsize := length data\<rparr>) data])"
| "tar_write_files E fs ((SrcPath p, arcname) # rest) written =
     (case tarfile_add E fs p arcname of
        Inl e \<Rightarrow> (Some e, written)
      | Inr infos \<Rightarrow> tar_write_files E fs rest (written @ infos))"

text \<open>What \<^verbatim>\<open>tarfile.open(path, mode)\<close> leaves on disk when it is closed.\<close>

definition tar_encode :: "string \<Rightarrow> TarInfo list \<Rightarrow> content" where
  "tar_encode m infos =
     (if m = ''w:gz'' then Gz (TarData infos)
      else if m = ''w:bz2'' then Bz2 (TarData infos)
      else if m = ''w:xz'' then Xz (TarData infos)
      else TarData infos)"

text \<open>
  \<^verbatim>\<open>ArchiveBuilder.build\<close>. Opening the target for writing can fail; when it does
  not, it empties the target, and the queued files are read from the disk in that
  state. Leaving the \<^verbatim>\<open>with\<close> block closes the archive over the members written so
  far, also when an exception ends it.
\<close>

definition build :: "env \<Rightarrow> ArchiveBuilder \<Rightarrow> fsys \<Rightarrow> (error + Archive) \<times> fsys" where
  "build E b fs =
     (case open_wb fs (b_path b) of
        Inl e \<Rightarrow> (Inl e, fs)
      | Inr (k, fs0) \<Rightarrow>
          if b_format b = ZIP then
            (case zip_write_files E fs0 (files b) [] of
               (Some e, infos) \<Rightarrow> (Inl e, put fs0 k (File (ZipData infos)))
             | (None, infos) \<Rightarrow> (Archive_init (b_path b), put fs0 k (File (ZipData infos))))
          else
            (let mode = (if b_format b = TAR_GZ then ''w:gz''
                         else if b_format b = TAR_BZ2 then ''w:bz2''
                         else if b_format b = TAR_XZ then ''w:xz''
                         else ''w'') in
             case tar_write_files E fs0 (files b) [] of
               (Some e, infos) \<Rightarrow> (Inl e, put fs0 k (File (tar_encode mode infos)))
             | (None, infos) \<Rightarrow>
                 (Archive_init (b_path b), put fs0 k (File (tar_encode mode infos)))))"

subsection \<open>Names of members\<close>

text \<open>
  The name under which the reader of a format looks a requested member up: the zip
  reader takes the name as it is, the tar reader without its trailing slashes. A name is
  present in an archive when its lookup name is the name of an entry.
\<close>

definition lookup_name :: "ArchiveFormat \<Rightarrow> string \<Rightarrow> string" where
  "lookup_name f n = (if f = ZIP then n else rstrip_slash n)"

text \<open>
  A writer stores a name when it writes the entry and the archive then has the entry
  under that very name. The zip writer is the writer of the zip format, the tar writer
  that of every other format.
\<close>

definition stores_name :: "ArchiveFormat \<Rightarrow> string \<Rightarrow> bool" where
  "stores_name w n =
     (if w = ZIP
      then sanitize_filename n = n \<and> n \<noteq> [] \<and> utf8_length n \<le> 65535
      else tar_header_name n = n)"

text \<open>
  The read format \<open>r\<close> reads back what the write format \<open>w\<close> wrote: zip reads zip;
  the plain tar mode reads every tar, compressed or not; a compressed tar mode reads
  its own compression.
\<close>

definition reads_back :: "ArchiveFormat \<Rightarrow> ArchiveFormat \<Rightarrow> bool" where
  "reads_back w r =
     (if w = ZIP then r = ZIP
      else r = TAR \<or> (is_tar_format r \<and> r = w))"

subsection \<open>A sample environment\<close>

text \<open>
  An environment for the concrete instances below. The clock stands at zero, deflating
  keeps the length, no queued file is found on disk and no link is followed. A member
  is extracted as the collaborators do it for a name made of plain parts: the zip
  reader drops the empty parts, the single and the double dots of the name; both make
  the directories above the target, and then the directory or the file itself. The
  bytes written are those of the member, which is what the readers do for the short
  members of the instances below, also when the target is the archive being read.
\<close>

definition extract_at :: "path \<Rightarrow> bool \<Rightarrow> bytes \<Rightarrow> fsys \<Rightarrow> error option \<times> fsys" where
  "extract_at target isdir data fs =
     (case mkdir_p fs (render (root_of target) (butlast (parts target))) of
        (Some e, fs1) \<Rightarrow> (Some e, fs1)
      | (None, fs1) \<Rightarrow>
          if isdir then
            mkdir_p fs1 target
          else
            (case open_wb fs1 target of
               Inl e \<Rightarrow> (Some e, fs1)
             | Inr (k, fs2) \<Rightarrow> (None, put fs2 k (File (Bytes data)))))"

definition sample_zip_extract :: "ZipInfo \<Rightarrow> path \<Rightarrow> fsys \<Rightarrow> error option \<times> fsys" where
  "sample_zip_extract info dest fs =
     extract_at
       (path_join dest
          (join_slash (filter (\<lambda>c. c \<noteq> [] \<and> c \<noteq> ''.'' \<and> c \<noteq> ''..'') (split_slash (filename info)))))
       (zipinfo_is_dir info) (zdata info) fs"

definition sample_tar_extract :: "TarInfo list \<Rightarrow> TarInfo \<Rightarrow> path \<Rightarrow> fsys \<Rightarrow> error option \<times> fsys" where
  "sample_tar_extract infos info dest fs =
     (if ttype info = REGTYPE \<or> ttype info = DIRTYPE
      then extract_at (path_join dest (tname info)) (ttype info = DIRTYPE) (tdata info) fs
      else (Some ReadError, fs))"

text \<open>
  The paths a Linux system refuses: \<^verbatim>\<open>ValueError\<close> for a NUL character, \<^verbatim>\<open>OSError\<close>
  for a name of more than 255 bytes.
\<close>

definition posix_names :: "bool \<Rightarrow> string list \<Rightarrow> error option" where
  "posix_names ab ps =
     (if list_ex (\<lambda>c. CHR 0x00 \<in> set c) ps then Some ValueError
      else if list_ex (\<lambda>c. 255 < utf8_length c) ps then Some OSError
      else None)"

definition sample_env :: env where
  "sample_env =
     \<lparr>clock = 0, deflated_size = length,
      zipfile_write = (\<lambda>fs p n. Inl FileNotFoundError),
      tarfile_add = (\<lambda>fs p n. Inl FileNotFoundError),
      zip_extract_member = sample_zip_extract,
      tar_extract_member = sample_tar_extract,
      tar_link_stream = (\<lambda>infos info. Inl (KeyError (linkname info)))\<rparr>"

subsection \<open>Disks that differ by a call\<close>

text \<open>
  Two relations between the disk before a call and the disk after it, used in the
  proofs: the later disk has every directory of the earlier one, and the later disk has
  every node of the earlier one.
\<close>

definition keeps_dirs :: "fsys \<Rightarrow> fsys \<Rightarrow> bool" where
  "keeps_dirs fs fs' =
     (cwd fs' = cwd fs \<and> refused fs' = refused fs
      \<and> (\<forall>k. node_at fs k = Some Dir \<longrightarrow> node_at fs' k = Some Dir))"

definition grows :: "fsys \<Rightarrow> fsys \<Rightarrow> bool" where
  "grows fs fs' =
     (cwd fs' = cwd fs \<and> refused fs' = refused fs
      \<and> (\<forall>k n. node_at fs k = Some n \<longrightarrow> node_at fs' k = Some n))"

subsection \<open>The detection contract, as the specification words it\<close>

text \<open>
  The specification gives detection as a table of suffixes in precedence order, matched
  without regard to case, the first match deciding.
\<close>

definition spec_suffix_table :: "(string \<times> ArchiveFormat) list" where
  "spec_suffix_table =
     [(''.zip'', ZIP),
      (''.tar.gz'', TAR_GZ), (''.tgz'', TAR_GZ),
      (''.tar.bz2'', TAR_BZ2), (''.tbz2'', TAR_BZ2),
      (''.tar.xz'', TAR_XZ), (''.txz'', TAR_XZ),
      (''.tar'', TAR),
      (''.gz'', GZIP)]"

definition ci_suffix :: "string \<Rightarrow> string \<Rightarrow> bool" where
  "ci_suffix suf s =
     (length suf \<le> length s \<and> lower (drop (length s - length suf) s) = lower suf)"

definition spec_detect :: "string \<Rightarrow> ArchiveFormat option" where
  "spec_detect pname =
     map_option snd (find (\<lambda>(suf, f). ci_suffix suf pname) spec_suffix_table)"

section \<open>Properties of format detection\<close>

lemmas eval_defs =
  Archive_init_def Archive_detect_format_def ArchiveBuilder_detect_format_def
  ArchiveBuilder_init_def path_name_def parts_def is_absolute_def root_of_def render_def
  path_join_def
  lower_def lower_char_def upper_letters_def lower_letters_def endswith_def
  add_bytes_def zipfile_writestr_def sanitize_filename_def utf8_length_def
  Archive_list_def Archive_read_def zipfile_open_r_def tarfile_open_r_def open_rb_def
  open_wb_def resolve_def resolve_parts_def node_at_def put_def
  zipfile_read_def zipfile_getinfo_def tarfile_getmember_def tarfile_extractfile_def
  is_tar_format_def zip_entry_def tar_entry_def zipinfo_is_dir_def Archive_tar_mode_def
  tar_encode_def TarInfo_init_def tarfile_addfile_def tar_header_name_def rstrip_slash_def
  lookup_name_def stores_name_def reads_back_def ci_suffix_def sample_env_def posix_names_def

lemmas disk_defs =
  mkdir_p_def os_mkdir_def is_dir_parts_def extract_at_def sample_zip_extract_def
  sample_tar_extract_def zipfile_extract_def tarfile_extract_def tarfile_extractall_def
  zipfile_extractall_def
  truthy_def path_stem_def rfind_dot_def Let_def

lemmas build_defs = build_def Let_def

lemma lower_literals:
  "lower ''.zip'' = ''.zip''" "lower ''.tar.gz'' = ''.tar.gz''" "lower ''.tgz'' = ''.tgz''"
  "lower ''.tar.bz2'' = ''.tar.bz2''" "lower ''.tbz2'' = ''.tbz2''"
  "lower ''.tar.xz'' = ''.tar.xz''" "lower ''.txz'' = ''.txz''"
  "lower ''.tar'' = ''.tar''" "lower ''.gz'' = ''.gz''"
  by (simp_all add: lower_def lower_char_def upper_letters_def lower_letters_def)

lemma ci_suffix_endswith:
  "lower suf = suf \<Longrightarrow> ci_suffix suf s = endswith (lower s) suf"
  by (simp add: ci_suffix_def endswith_def lower_def drop_map)

lemma spec_detect_unfold:
  "spec_detect s =
     (let n = lower s in
      if endswith n ''.zip'' then Some ZIP
      else if endswith n ''.tar.gz'' \<or> endswith n ''.tgz'' then Some TAR_GZ
      else if endswith n ''.tar.bz2'' \<or> endswith n ''.tbz2'' then Some TAR_BZ2
      else if endswith n ''.tar.xz'' \<or> endswith n ''.txz'' then Some TAR_XZ
      else if endswith n ''.tar'' then Some TAR
      else if endswith n ''.gz'' then Some GZIP
      else None)"
  by (simp add: spec_detect_def spec_suffix_table_def ci_suffix_endswith lower_literals Let_def)

text \<open>
  Claim C2. Constructing an \<^verbatim>\<open>Archive\<close> over any path resolves the format as the
  specification's table does on the path's file name: suffixes \<^verbatim>\<open>.zip\<close>;
  \<^verbatim>\<open>.tar.gz\<close>/\<^verbatim>\<open>.tgz\<close>; \<^verbatim>\<open>.tar.bz2\<close>/\<^verbatim>\<open>.tbz2\<close>; \<^verbatim>\<open>.tar.xz\<close>/\<^verbatim>\<open>.txz\<close>;
  \<^verbatim>\<open>.tar\<close>; \<^verbatim>\<open>.gz\<close>, tried in this order without regard to case, the first match
  giving the format tag; and when no suffix of the table matches, construction fails with
  the unrecognized-format error.
\<close>

theorem Archive_init_detects_by_table:
  "Archive_init p =
     (case spec_detect (path_name p) of
        Some f \<Rightarrow> Inr \<lparr>path = p, format = f\<rparr>
      | None \<Rightarrow> Inl (ArchiveError (''Unknown archive format: '' @ lower (path_name p))))"
  by (simp add: Archive_init_def Archive_detect_format_def spec_detect_unfold Let_def)

text \<open>
  Claim C3, as stated, fails: a builder constructed without a format over
  \<^verbatim>\<open>a.gz\<close> takes zip where the read side detects gzip, and over \<^verbatim>\<open>a.tbz2\<close> it
  takes zip where the read side detects tar.bz2.
\<close>

theorem builder_detect_differs_from_reader:
  "b_format (ArchiveBuilder_init ''a.gz'' None) = ZIP
   \<and> spec_detect (path_name ''a.gz'') = Some GZIP
   \<and> b_format (ArchiveBuilder_init ''a.tbz2'' None) = ZIP
   \<and> spec_detect (path_name ''a.tbz2'') = Some TAR_BZ2"
  by (simp add: spec_detect_unfold eval_defs)

text \<open>
  Claim C3, amended. On every target path whose name does not end in \<^verbatim>\<open>.tbz2\<close> or
  \<^verbatim>\<open>.txz\<close> (in any case), a builder constructed without a format takes the format
  the read side detects from the name, with two exceptions that both give zip: a name the
  read side detects as plain gzip, and a name the read side rejects.
\<close>

theorem builder_infers_format:
  assumes "\<not> ci_suffix ''.tbz2'' (path_name p)" and "\<not> ci_suffix ''.txz'' (path_name p)"
  shows "b_format (ArchiveBuilder_init p None) =
     (case spec_detect (path_name p) of
        Some GZIP \<Rightarrow> ZIP
      | Some f \<Rightarrow> f
      | None \<Rightarrow> ZIP)"
  using assms
  by (simp add: ArchiveBuilder_init_def ArchiveBuilder_detect_format_def spec_detect_unfold
      ci_suffix_endswith lower_literals Let_def)

theorem builder_infers_format_witness:
  "\<not> ci_suffix ''.tbz2'' (path_name ''out/a.TGZ'')
   \<and> \<not> ci_suffix ''.txz'' (path_name ''out/a.TGZ'')
   \<and> spec_detect (path_name ''out/a.TGZ'') = Some TAR_GZ
   \<and> b_format (ArchiveBuilder_init ''out/a.TGZ'' None) = TAR_GZ"
proof -
  have h1: "\<not> ci_suffix ''.tbz2'' (path_name ''out/a.TGZ'')" by (simp add: eval_defs)
  have h2: "\<not> ci_suffix ''.txz'' (path_name ''out/a.TGZ'')" by (simp add: eval_defs)
  have d: "spec_detect (path_name ''out/a.TGZ'') = Some TAR_GZ"
    by (simp add: spec_detect_unfold eval_defs)
  from builder_infers_format[OF h1 h2] h1 h2 d show ?thesis by simp
qed

section \<open>Properties of the read facade\<close>

subsection \<open>Looking members up\<close>

lemma format_cases: "f = ZIP \<or> is_tar_format f \<or> f = GZIP"
  by (cases f) (simp_all add: is_tar_format_def)


lemma find_snoc:
  "find P (xs @ [y]) =
     (case find P xs of None \<Rightarrow> (if P y then Some y else None) | Some x \<Rightarrow> Some x)"
  by (induction xs) auto

lemma find_missing: "n \<notin> set (map f xs) \<Longrightarrow> find (\<lambda>i. f i = n) (rev xs) = None"
  by (force simp: find_None_iff)

lemma find_present:
  assumes "n \<in> set (map f xs)"
  shows "\<exists>i. find (\<lambda>i. f i = n) (rev xs) = Some i \<and> f i = n"
proof (cases "find (\<lambda>i. f i = n) (rev xs)")
  case None
  then have "\<forall>x\<in>set xs. f x \<noteq> n" by (simp add: find_None_iff)
  with assms show ?thesis by auto
next
  case (Some i)
  then have "f i = n" by (auto simp: find_Some_iff)
  with Some show ?thesis by blast
qed

lemma find_rev_distinct:
  "distinct (map f xs) \<Longrightarrow> x \<in> set xs \<Longrightarrow> find (\<lambda>i. f i = f x) (rev xs) = Some x"
proof (induction xs)
  case Nil
  then show ?case by simp
next
  case (Cons a xs)
  show ?case
  proof (cases "x \<in> set xs")
    case True
    with Cons have "find (\<lambda>i. f i = f x) (rev xs) = Some x" by simp
    then show ?thesis by (simp add: find_snoc)
  next
    case False
    with Cons.prems have xa: "x = a" by simp
    from Cons.prems have "f a \<notin> f ` set xs" by simp
    then have "find (\<lambda>i. f i = f a) (rev xs) = None" by (simp add: find_missing)
    with xa show ?thesis by (simp add: find_snoc)
  qed
qed

lemma zipfile_getinfo_missing:
  "n \<notin> set (map filename infos) \<Longrightarrow> zipfile_getinfo infos n = Inl (KeyError n)"
  by (simp add: zipfile_getinfo_def find_missing)

lemma tarfile_getmember_missing:
  "rstrip_slash n \<notin> set (map tname infos) \<Longrightarrow> tarfile_getmember infos n = Inl (KeyError n)"
  by (simp add: tarfile_getmember_def find_missing)

lemma zipfile_getinfo_present:
  "n \<in> set (map filename infos) \<Longrightarrow> \<exists>i. zipfile_getinfo infos n = Inr i \<and> filename i = n"
  using find_present[of n filename infos] by (auto simp: zipfile_getinfo_def)

lemma tarfile_getmember_present:
  "rstrip_slash n \<in> set (map tname infos) \<Longrightarrow>
   \<exists>i. tarfile_getmember infos n = Inr i \<and> tname i = rstrip_slash n"
  using find_present[of "rstrip_slash n" tname infos] by (auto simp: tarfile_getmember_def)

subsection \<open>Listing\<close>

lemma Archive_list_zip:
  "format a = ZIP \<Longrightarrow> Archive_list a fs = Inr es \<Longrightarrow>
   \<exists>infos. zipfile_open_r fs (path a) = Inr infos \<and> es = map zip_entry infos"
  by (auto simp: Archive_list_def split: sum.splits)

lemma Archive_list_tar:
  "is_tar_format (format a) \<Longrightarrow> Archive_list a fs = Inr es \<Longrightarrow>
   \<exists>infos. tarfile_open_r fs (path a) (Archive_tar_mode a ''r'') = Inr infos
          \<and> es = map tar_entry infos"
  by (auto simp: Archive_list_def is_tar_format_def split: sum.splits)

text \<open>
  Claim C7. For an \<^verbatim>\<open>Archive\<close> whose format is plain gzip, \<^verbatim>\<open>list()\<close> returns the
  empty sequence, whatever is on disk: no synthetic entry and no error.
\<close>

theorem list_gzip_empty:
  "format a = GZIP \<Longrightarrow> Archive_list a fs = Inr []"
  by (simp add: Archive_list_def is_tar_format_def)

theorem list_gzip_empty_witness:
  "Archive_init ''data.gz'' = Inr \<lparr>path = ''data.gz'', format = GZIP\<rparr>
   \<and> Archive_list \<lparr>path = ''data.gz'', format = GZIP\<rparr>
        \<lparr>cwd = [], tree = [[''data.gz''] \<mapsto> File (Gz (Bytes [1, 2, 3]))], refused = posix_names\<rparr> = Inr []"
proof -
  have i: "Archive_init ''data.gz'' = Inr \<lparr>path = ''data.gz'', format = GZIP\<rparr>"
    by (simp add: eval_defs)
  have f: "format \<lparr>path = ''data.gz'', format = GZIP\<rparr> = GZIP" by simp
  from list_gzip_empty[OF f] i show ?thesis by simp
qed

subsection \<open>Reading a member\<close>




section \<open>Properties of the disk\<close>

text \<open>
  Making directories and opening a file for reading leave every node of the disk in
  place; opening a file for writing changes the opened file only, and what is stored
  there when it is closed is what a later reader finds.
\<close>

lemma grows_keeps_dirs: "grows fs fs' \<Longrightarrow> keeps_dirs fs fs'"
  by (simp add: grows_def keeps_dirs_def)

lemma grows_refl: "grows fs fs"
  by (simp add: grows_def)

lemma grows_trans: "grows fs fs' \<Longrightarrow> grows fs' fs'' \<Longrightarrow> grows fs fs''"
  by (simp add: grows_def)

lemma walk_keeps_dirs:
  "keeps_dirs fs fs' \<Longrightarrow> walk fs cur ps = Inr k \<Longrightarrow> walk fs' cur ps = Inr k"
proof (induction ps arbitrary: cur)
  case Nil
  then show ?case by simp
next
  case (Cons c cs)
  from Cons.prems(2) have d: "node_at fs cur = Some Dir"
    by (auto split: option.splits node.splits)
  with Cons.prems(1) have d': "node_at fs' cur = Some Dir" by (simp add: keeps_dirs_def)
  from Cons.prems(2) d have "walk fs (if c = ''..'' then butlast cur else cur @ [c]) cs = Inr k"
    by simp
  from Cons.IH[OF Cons.prems(1) this] d' show ?case by simp
qed

lemma resolve_keeps_dirs:
  assumes "keeps_dirs fs fs'" "resolve fs p = Inr k"
  shows "resolve fs' p = Inr k"
proof -
  from assms(1) have c: "cwd fs' = cwd fs" and r: "refused fs' = refused fs"
    by (simp_all add: keeps_dirs_def)
  from assms(2) have n: "refused fs (is_absolute p) (parts p) = None"
    by (auto simp: resolve_def resolve_parts_def split: option.splits)
  with assms(2) have "walk fs (if is_absolute p then [] else cwd fs) (parts p) = Inr k"
    by (simp add: resolve_def resolve_parts_def)
  from walk_keeps_dirs[OF assms(1) this] show ?thesis
    by (auto simp: resolve_def resolve_parts_def c r n split: if_splits)
qed

lemma open_rb_grows:
  assumes "grows fs fs'" "open_rb fs p = Inr c"
  shows "open_rb fs' p = Inr c"
proof -
  from assms(2) obtain k where r: "resolve fs p = Inr k" and n: "node_at fs k = Some (File c)"
    by (auto simp: open_rb_def split: sum.splits option.splits node.splits)
  from resolve_keeps_dirs[OF grows_keeps_dirs[OF assms(1)] r] have "resolve fs' p = Inr k" .
  moreover from assms(1) n have "node_at fs' k = Some (File c)" by (simp add: grows_def)
  ultimately show ?thesis by (simp add: open_rb_def)
qed

lemma put_new_grows: "node_at fs k = None \<Longrightarrow> grows fs (put fs k n)"
  by (auto simp: grows_def put_def node_at_def split: if_splits)

lemma os_mkdir_grows: "os_mkdir fs ab ps = Inr fs' \<Longrightarrow> grows fs fs'"
  by (auto simp: os_mkdir_def put_new_grows split: sum.splits option.splits)

lemma mkdir_rev_grows: "mkdir_rev fs ab rps = (r, fs') \<Longrightarrow> grows fs fs'"
proof (induction rps arbitrary: fs fs' r)
  case Nil
  then show ?case
    by (auto simp: grows_refl dest: os_mkdir_grows split: sum.splits if_splits)
next
  case (Cons c rps)
  show ?case
  proof (cases "os_mkdir fs ab (rev (c # rps))")
    case (Inr f1)
    with Cons.prems have "fs' = f1" by simp
    with Inr show ?thesis by (auto dest: os_mkdir_grows)
  next
    case (Inl e)
    show ?thesis
    proof (cases "e = FileNotFoundError")
      case False
      with Inl Cons.prems have "fs' = fs" by (auto split: if_splits)
      then show ?thesis by (simp add: grows_refl)
    next
      case True
      obtain r1 f1 where m: "mkdir_rev fs ab rps = (r1, f1)" by (cases "mkdir_rev fs ab rps")
      from Cons.IH[OF m] have g1: "grows fs f1" .
      show ?thesis
      proof (cases r1)
        case (Some e1)
        with Inl True m Cons.prems have "fs' = f1" by simp
        with g1 show ?thesis by simp
      next
        case None
        show ?thesis
        proof (cases "os_mkdir f1 ab (rev (c # rps))")
          case (Inr f2)
          with Inl True m None Cons.prems have "fs' = f2" by simp
          with Inr have "grows f1 fs'" by (auto dest: os_mkdir_grows)
          with g1 show ?thesis by (rule grows_trans)
        next
          case (Inl e2)
          with \<open>os_mkdir fs ab (rev (c # rps)) = Inl e\<close> True m None Cons.prems have "fs' = f1"
            by (auto split: if_splits)
          with g1 show ?thesis by simp
        qed
      qed
    qed
  qed
qed

lemma mkdir_p_grows: "mkdir_p fs d = (r, fs') \<Longrightarrow> grows fs fs'"
  by (simp add: mkdir_p_def mkdir_rev_grows)

lemma zipfile_open_r_grows:
  "grows fs fs' \<Longrightarrow> zipfile_open_r fs p = Inr infos \<Longrightarrow> zipfile_open_r fs' p = Inr infos"
  by (auto simp: zipfile_open_r_def open_rb_grows split: sum.splits content.splits)

lemma tarfile_open_r_grows:
  "grows fs fs' \<Longrightarrow> tarfile_open_r fs p m = Inr infos \<Longrightarrow> tarfile_open_r fs' p m = Inr infos"
  by (auto simp: tarfile_open_r_def open_rb_grows split: sum.splits)

lemma put_file_keeps_dirs:
  "node_at fs k \<noteq> Some Dir \<Longrightarrow> keeps_dirs fs (put fs k (File c))"
  by (auto simp: keeps_dirs_def put_def node_at_def split: if_splits)

lemma node_at_put_file:
  "node_at fs k \<noteq> Some Dir \<Longrightarrow>
   node_at (put fs k (File c)) k' = (if k' = k then Some (File c) else node_at fs k')"
  by (auto simp: put_def node_at_def split: if_splits)

lemma open_wb_result:
  "open_wb fs p = Inr (k, fs0) \<Longrightarrow>
   resolve fs p = Inr k \<and> node_at fs k \<noteq> Some Dir \<and> fs0 = put fs k (File (Bytes []))"
  by (auto simp: open_wb_def split: sum.splits option.splits node.splits)

lemma put_put: "put (put fs k a) k b = put fs k b"
  by (simp add: put_def)

lemma open_wb_then_close:
  assumes "open_wb fs p = Inr (k, fs0)"
  shows "open_rb (put fs0 k (File c)) p = Inr c"
proof -
  from open_wb_result[OF assms] have r: "resolve fs p = Inr k" and n: "node_at fs k \<noteq> Some Dir"
    and f: "fs0 = put fs k (File (Bytes []))" by auto
  have e: "put fs0 k (File c) = put fs k (File c)" by (simp add: f put_put)
  from resolve_keeps_dirs[OF put_file_keeps_dirs[OF n] r]
  have "resolve (put fs k (File c)) p = Inr k" .
  then show ?thesis by (simp add: e open_rb_def node_at_put_file[OF n])
qed


section \<open>Properties of extraction\<close>

subsection \<open>Extracting everything\<close>



lemma truthy_Some: "ms \<noteq> [] \<Longrightarrow> truthy (Some ms) = Some ms"
  by (cases ms) (simp_all add: truthy_def)








subsection \<open>Extracting named members\<close>

lemma zip_loop_append:
  "zip_extract_members E infos dest (pre @ rest) acc fs =
     (case zip_extract_members E infos dest pre acc fs of
        (Inl e, fs') \<Rightarrow> (Inl e, fs')
      | (Inr acc', fs') \<Rightarrow> zip_extract_members E infos dest rest acc' fs')"
  by (induction pre arbitrary: acc fs) (auto split: prod.splits option.splits)

lemma tar_loop_append:
  "tar_extract_members E infos dest (pre @ rest) acc fs =
     (case tar_extract_members E infos dest pre acc fs of
        (Inl e, fs') \<Rightarrow> (Inl e, fs')
      | (Inr acc', fs') \<Rightarrow> tar_extract_members E infos dest rest acc' fs')"
  by (induction pre arbitrary: acc fs) (auto split: prod.splits option.splits)

lemma zip_loop_absent:
  "m \<notin> set (map filename infos) \<Longrightarrow>
   zip_extract_members E infos dest (m # post) acc fs = (Inl (KeyError m), fs)"
  by (simp add: zipfile_extract_def zipfile_getinfo_missing)

lemma tar_loop_absent:
  "rstrip_slash m \<notin> set (map tname infos) \<Longrightarrow>
   tar_extract_members E infos dest (m # post) acc fs = (Inl (KeyError m), fs)"
  by (simp add: tarfile_extract_def tarfile_getmember_missing)

lemma extract_members_zip:
  assumes "format a = ZIP" "zipfile_open_r fs (path a) = Inr infos" "mkdir_p fs dest = (None, fs1)"
    "ms \<noteq> []"
  shows "Archive_extract E a dest (Some ms) fs = zip_extract_members E infos dest ms [] fs1"
  using assms(1) zipfile_open_r_grows[OF mkdir_p_grows[OF assms(3)] assms(2)]
  by (simp add: Archive_extract_def assms(3) truthy_Some[OF assms(4)])

lemma extract_members_tar:
  assumes "is_tar_format (format a)"
    "tarfile_open_r fs (path a) (Archive_tar_mode a ''r'') = Inr infos" "mkdir_p fs dest = (None, fs1)"
    "ms \<noteq> []"
  shows "Archive_extract E a dest (Some ms) fs = tar_extract_members E infos dest ms [] fs1"
proof -
  from assms(1) have nz: "format a \<noteq> ZIP" by (auto simp: is_tar_format_def)
  show ?thesis
    using assms(1) nz tarfile_open_r_grows[OF mkdir_p_grows[OF assms(3)] assms(2)]
    by (simp add: Archive_extract_def assms(3) truthy_Some[OF assms(4)])
qed

lemma extract_returns_mkdir:
  "Archive_extract E a dest ms fs = (Inr ps, fs2) \<Longrightarrow> \<exists>fs1. mkdir_p fs dest = (None, fs1)"
  by (cases "mkdir_p fs dest") (auto simp: Archive_extract_def split: option.splits)

text \<open>
  Claim C6, as stated, fails. The members named before the missing one are extracted
  first, and one of them can land on the archive itself: extracting \<^verbatim>\<open>a.zip\<close> and then
  the missing \<^verbatim>\<open>nope\<close> from \<^verbatim>\<open>out/a.zip\<close> into \<^verbatim>\<open>out\<close> raises the key error
  and leaves the bytes of the member where the archive was, which no longer reads as a
  zip file. And when the destination is a regular file the call fails in \<^verbatim>\<open>mkdir\<close>,
  before any member is looked up.
\<close>

theorem extract_missing_member_can_overwrite_archive:
  "Archive_list \<lparr>path = ''out/a.zip'', format = ZIP\<rparr>
      \<lparr>cwd = [], tree = [[''out''] \<mapsto> Dir, [''out'', ''a.zip''] \<mapsto> File (ZipData
         [\<lparr>filename = ''a.zip'', file_size = 1, compress_size = 1, date_time = 0, zdata = [7]\<rparr>])],
        refused = posix_names\<rparr>
     = Inr [zip_entry
         \<lparr>filename = ''a.zip'', file_size = 1, compress_size = 1, date_time = 0, zdata = [7]\<rparr>]
   \<and> fst (Archive_extract sample_env \<lparr>path = ''out/a.zip'', format = ZIP\<rparr> ''out''
        (Some [''a.zip'', ''nope''])
        \<lparr>cwd = [], tree = [[''out''] \<mapsto> Dir, [''out'', ''a.zip''] \<mapsto> File (ZipData
           [\<lparr>filename = ''a.zip'', file_size = 1, compress_size = 1, date_time = 0, zdata = [7]\<rparr>])],
          refused = posix_names\<rparr>)
     = Inl (KeyError ''nope'')
   \<and> open_rb (snd (Archive_extract sample_env \<lparr>path = ''out/a.zip'', format = ZIP\<rparr> ''out''
        (Some [''a.zip'', ''nope''])
        \<lparr>cwd = [], tree = [[''out''] \<mapsto> Dir, [''out'', ''a.zip''] \<mapsto> File (ZipData
           [\<lparr>filename = ''a.zip'', file_size = 1, compress_size = 1, date_time = 0, zdata = [7]\<rparr>])],
          refused = posix_names\<rparr>)) ''out/a.zip''
     = Inr (Bytes [7])
   \<and> Archive_list \<lparr>path = ''out/a.zip'', format = ZIP\<rparr>
        (snd (Archive_extract sample_env \<lparr>path = ''out/a.zip'', format = ZIP\<rparr> ''out''
        (Some [''a.zip'', ''nope''])
        \<lparr>cwd = [], tree = [[''out''] \<mapsto> Dir, [''out'', ''a.zip''] \<mapsto> File (ZipData
           [\<lparr>filename = ''a.zip'', file_size = 1, compress_size = 1, date_time = 0, zdata = [7]\<rparr>])],
          refused = posix_names\<rparr>))
     = Inl BadZipFile
   \<and> Archive_extract sample_env \<lparr>path = ''a.zip'', format = ZIP\<rparr> ''a.zip'' (Some [''nope''])
        \<lparr>cwd = [], tree = [[''a.zip''] \<mapsto> File (ZipData [])], refused = posix_names\<rparr>
     = (Inl FileExistsError,
        \<lparr>cwd = [], tree = [[''a.zip''] \<mapsto> File (ZipData [])], refused = posix_names\<rparr>)"
  by (simp add: eval_defs disk_defs Archive_extract_def)

text \<open>
  Claim C6, amended. Take a readable archive of a container format and a name that is
  not present in it. When the destination can be made and the name comes first in the
  members list, \<^verbatim>\<open>extract\<close> fails with the reader's key error, the disk is the one
  \<^verbatim>\<open>mkdir\<close> left, and the archive reads as before. When the name comes after members
  whose extraction succeeds, \<^verbatim>\<open>extract\<close> fails with the key error and the disk is
  exactly the one the extraction of those members leaves: nothing is created for the
  missing name or for the names after it.
\<close>

theorem extract_missing_member:
  assumes c: "format a \<noteq> GZIP" and l: "Archive_list a fs = Inr es"
    and ab: "lookup_name (format a) m \<notin> set (map name es)"
  shows "(mkdir_p fs dest = (None, fs1) \<longrightarrow>
            Archive_extract E a dest (Some (m # post)) fs = (Inl (KeyError m), fs1)
            \<and> open_rb fs1 (path a) = open_rb fs (path a))
       \<and> (pre \<noteq> [] \<longrightarrow> Archive_extract E a dest (Some pre) fs = (Inr ps, fs2) \<longrightarrow>
            Archive_extract E a dest (Some (pre @ m # post)) fs = (Inl (KeyError m), fs2))"
proof -
  from c format_cases[of "format a"] consider "format a = ZIP" | "is_tar_format (format a)"
    by blast
  then show ?thesis
  proof cases
    case 1
    from Archive_list_zip[OF 1 l] obtain infos where
      o: "zipfile_open_r fs (path a) = Inr infos" and e: "es = map zip_entry infos" by blast
    from ab 1 e have am: "m \<notin> set (map filename infos)"
      by (simp add: lookup_name_def zip_entry_def image_iff)
    from o obtain c0 where oc: "open_rb fs (path a) = Inr c0"
      by (auto simp: zipfile_open_r_def split: sum.splits)
    have A: "Archive_extract E a dest (Some (m # post)) fs = (Inl (KeyError m), fs1)
             \<and> open_rb fs1 (path a) = open_rb fs (path a)" if mk: "mkdir_p fs dest = (None, fs1)"
      using extract_members_zip[OF 1 o mk, of "m # post" E] zip_loop_absent[OF am]
        open_rb_grows[OF mkdir_p_grows[OF mk] oc] oc
      by simp
    have B: "Archive_extract E a dest (Some (pre @ m # post)) fs = (Inl (KeyError m), fs2)"
      if ne: "pre \<noteq> []" and ex: "Archive_extract E a dest (Some pre) fs = (Inr ps, fs2)"
    proof -
      from extract_returns_mkdir[OF ex] obtain f1 where mk: "mkdir_p fs dest = (None, f1)" by blast
      from ex extract_members_zip[OF 1 o mk ne, of E]
      have lp: "zip_extract_members E infos dest pre [] f1 = (Inr ps, fs2)" by simp
      have "Archive_extract E a dest (Some (pre @ m # post)) fs
            = zip_extract_members E infos dest (pre @ m # post) [] f1"
        using ne by (intro extract_members_zip[OF 1 o mk]) simp
      then show ?thesis by (simp add: zip_loop_append lp zip_loop_absent[OF am] del: zip_extract_members.simps)
    qed
    from A B show ?thesis by blast
  next
    case 2
    then have nz: "format a \<noteq> ZIP" by (auto simp: is_tar_format_def)
    from Archive_list_tar[OF 2 l] obtain infos where
      o: "tarfile_open_r fs (path a) (Archive_tar_mode a ''r'') = Inr infos"
      and e: "es = map tar_entry infos" by blast
    from ab nz e have am: "rstrip_slash m \<notin> set (map tname infos)"
      by (simp add: lookup_name_def tar_entry_def image_iff)
    from o obtain c0 where oc: "open_rb fs (path a) = Inr c0"
      by (auto simp: tarfile_open_r_def split: sum.splits)
    have A: "Archive_extract E a dest (Some (m # post)) fs = (Inl (KeyError m), fs1)
             \<and> open_rb fs1 (path a) = open_rb fs (path a)" if mk: "mkdir_p fs dest = (None, fs1)"
      using extract_members_tar[OF 2 o mk, of "m # post" E] tar_loop_absent[OF am]
        open_rb_grows[OF mkdir_p_grows[OF mk] oc] oc
      by simp
    have B: "Archive_extract E a dest (Some (pre @ m # post)) fs = (Inl (KeyError m), fs2)"
      if ne: "pre \<noteq> []" and ex: "Archive_extract E a dest (Some pre) fs = (Inr ps, fs2)"
    proof -
      from extract_returns_mkdir[OF ex] obtain f1 where mk: "mkdir_p fs dest = (None, f1)" by blast
      from ex extract_members_tar[OF 2 o mk ne, of E]
      have lp: "tar_extract_members E infos dest pre [] f1 = (Inr ps, fs2)" by simp
      have "Archive_extract E a dest (Some (pre @ m # post)) fs
            = tar_extract_members E infos dest (pre @ m # post) [] f1"
        using ne by (intro extract_members_tar[OF 2 o mk]) simp
      then show ?thesis by (simp add: tar_loop_append lp tar_loop_absent[OF am] del: tar_extract_members.simps)
    qed
    from A B show ?thesis by blast
  qed
qed

theorem extract_missing_member_witness:
  "Archive_extract sample_env \<lparr>path = ''a.zip'', format = ZIP\<rparr> ''out'' (Some [''nope'', ''a.txt''])
      \<lparr>cwd = [], tree = [[''a.zip''] \<mapsto> File (ZipData
         [\<lparr>filename = ''a.txt'', file_size = 2, compress_size = 2, date_time = 0, zdata = [1, 2]\<rparr>])],
        refused = posix_names\<rparr>
     = (Inl (KeyError ''nope''),
        put \<lparr>cwd = [], tree = [[''a.zip''] \<mapsto> File (ZipData
         [\<lparr>filename = ''a.txt'', file_size = 2, compress_size = 2, date_time = 0, zdata = [1, 2]\<rparr>])],
        refused = posix_names\<rparr> [''out''] Dir)
   \<and> open_rb (put \<lparr>cwd = [], tree = [[''a.zip''] \<mapsto> File (ZipData
         [\<lparr>filename = ''a.txt'', file_size = 2, compress_size = 2, date_time = 0, zdata = [1, 2]\<rparr>])],
        refused = posix_names\<rparr> [''out''] Dir) ''a.zip''
     = Inr (ZipData
         [\<lparr>filename = ''a.txt'', file_size = 2, compress_size = 2, date_time = 0, zdata = [1, 2]\<rparr>])
   \<and> fst (Archive_extract sample_env \<lparr>path = ''a.zip'', format = ZIP\<rparr> ''out''
        (Some [''a.txt'', ''nope'', ''a.txt''])
      \<lparr>cwd = [], tree = [[''a.zip''] \<mapsto> File (ZipData
         [\<lparr>filename = ''a.txt'', file_size = 2, compress_size = 2, date_time = 0, zdata = [1, 2]\<rparr>])],
        refused = posix_names\<rparr>)
     = Inl (KeyError ''nope'')
   \<and> snd (Archive_extract sample_env \<lparr>path = ''a.zip'', format = ZIP\<rparr> ''out''
        (Some [''a.txt'', ''nope'', ''a.txt''])
      \<lparr>cwd = [], tree = [[''a.zip''] \<mapsto> File (ZipData
         [\<lparr>filename = ''a.txt'', file_size = 2, compress_size = 2, date_time = 0, zdata = [1, 2]\<rparr>])],
        refused = posix_names\<rparr>)
     = snd (Archive_extract sample_env \<lparr>path = ''a.zip'', format = ZIP\<rparr> ''out'' (Some [''a.txt''])
      \<lparr>cwd = [], tree = [[''a.zip''] \<mapsto> File (ZipData
         [\<lparr>filename = ''a.txt'', file_size = 2, compress_size = 2, date_time = 0, zdata = [1, 2]\<rparr>])],
        refused = posix_names\<rparr>)"
proof -
  let ?z = "\<lparr>path = ''a.zip'', format = ZIP\<rparr>"
  let ?i = "\<lparr>filename = ''a.txt'', file_size = 2, compress_size = 2, date_time = 0, zdata = [1, 2]\<rparr>"
  let ?fz = "\<lparr>cwd = [], tree = [[''a.zip''] \<mapsto> File (ZipData [?i])], refused = posix_names\<rparr>"
  let ?f1 = "put ?fz [''out''] Dir"
  let ?f2 = "snd (Archive_extract sample_env ?z ''out'' (Some [''a.txt'']) ?fz)"
  have c: "format ?z \<noteq> GZIP" by simp
  have l: "Archive_list ?z ?fz = Inr [zip_entry ?i]" by (simp add: eval_defs)
  have ab: "lookup_name (format ?z) ''nope'' \<notin> set (map name [zip_entry ?i])"
    by (simp add: eval_defs)
  have m: "mkdir_p ?fz ''out'' = (None, ?f1)" by (simp add: eval_defs disk_defs)
  have ne: "[''a.txt''] \<noteq> []" by simp
  have "fst (Archive_extract sample_env ?z ''out'' (Some [''a.txt'']) ?fz) = Inr [''out/a.txt'']"
    by (simp add: eval_defs disk_defs Archive_extract_def)
  then have x: "Archive_extract sample_env ?z ''out'' (Some [''a.txt'']) ?fz
                = (Inr [''out/a.txt''], ?f2)"
    by (simp add: prod_eq_iff)
  have o: "open_rb ?fz ''a.zip'' = Inr (ZipData [?i])" by (simp add: eval_defs)
  note A = extract_missing_member[where E = sample_env and dest = "''out''"
      and post = "[''a.txt'']", OF c l ab, THEN conjunct1, rule_format, OF m]
  note B = extract_missing_member[where E = sample_env and dest = "''out''"
      and post = "[''a.txt'']", OF c l ab, THEN conjunct2, rule_format, OF ne x]
  from A B o show ?thesis by simp
qed

section \<open>Properties of the write facade\<close>

subsection \<open>Building\<close>

lemma builder_fields:
  "b_path (ArchiveBuilder_init p fmt) = p" "files (ArchiveBuilder_init p fmt) = []"
  "b_format (ArchiveBuilder_init p None) = ArchiveBuilder_detect_format (path_name p)"
  "b_format (ArchiveBuilder_init p (Some f)) = f"
  by (simp_all add: ArchiveBuilder_init_def)

lemma add_bytes_queue:
  "files (foldl (\<lambda>b (n, d). add_bytes b d n) b0 pairs)
     = files b0 @ map (\<lambda>(n, d). (SrcBytes d, n)) pairs
   \<and> b_path (foldl (\<lambda>b (n, d). add_bytes b d n) b0 pairs) = b_path b0
   \<and> b_format (foldl (\<lambda>b (n, d). add_bytes b d n) b0 pairs) = b_format b0"
  by (induction pairs arbitrary: b0) (auto simp: add_bytes_def)

lemma zip_write_length:
  "zip_write_files E fs fl acc = (None, infos) \<Longrightarrow> length infos = length acc + length fl"
proof (induction E fs fl acc rule: zip_write_files.induct)
  case (1 E fs written)
  then show ?case by simp
next
  case (2 E fs data arcname rest written)
  then show ?case by (cases "zipfile_writestr E arcname data") auto
next
  case (3 E fs p arcname rest written)
  then show ?case by (cases "zipfile_write E fs p arcname") auto
qed

lemma zip_write_bytes:
  "zip_write_files E fs (map (\<lambda>(n, d). (SrcBytes d, n)) pairs) acc = (None, infos) \<Longrightarrow>
   map Inr infos = map Inr acc @ map (\<lambda>(n, d). zipfile_writestr E n d) pairs"
proof (induction pairs arbitrary: acc)
  case Nil
  then show ?case by simp
next
  case (Cons x pairs)
  obtain n d where x: "x = (n, d)" by (cases x)
  show ?case
  proof (cases "zipfile_writestr E n d")
    case (Inl e)
    with Cons.prems x show ?thesis by simp
  next
    case (Inr i)
    with Cons.prems x have "zip_write_files E fs (map (\<lambda>(n, d). (SrcBytes d, n)) pairs) (acc @ [i])
                            = (None, infos)" by simp
    from Cons.IH[OF this] Inr x show ?thesis by simp
  qed
qed

lemma tar_write_length_bytes:
  "tar_write_files E fs (map (\<lambda>(n, d). (SrcBytes d, n)) pairs) acc
     = (None, acc @ map (\<lambda>(n, d). tarfile_addfile ((TarInfo_init n)\<lparr>tsize := length d\<rparr>) d) pairs)"
  by (induction pairs arbitrary: acc) auto

lemma undetectable_defaults_zip:
  "Archive_detect_format n = Inl e \<Longrightarrow>
   ArchiveBuilder_detect_format n = ZIP
   \<and> e = ArchiveError (''Unknown archive format: '' @ lower n)"
  by (auto simp: Archive_detect_format_def ArchiveBuilder_detect_format_def Let_def
      split: if_splits)

text \<open>
  Claim C8. Take a builder constructed without a format over a target path whose name
  the read side does not recognise, a target that can be opened for writing, and a queue
  of entries that the zip writer all writes. The builder has defaulted to zip, and
  \<^verbatim>\<open>build()\<close> leaves the complete zip archive at the target path, one member for each
  queued entry and, for a queue of in-memory payloads, the members \<^verbatim>\<open>writestr\<close> makes
  of them in queued order; the zip reader reads it back; and the call then fails with
  the unrecognized-format error of the \<^verbatim>\<open>Archive\<close> constructor.
\<close>

theorem build_undetectable_path_writes_then_fails:
  assumes u: "Archive_detect_format (path_name p) = Inl e"
    and b: "b = (ArchiveBuilder_init p None)\<lparr>files := fl\<rparr>"
    and o: "open_wb fs p = Inr (k, fs0)"
    and w: "zip_write_files E fs0 fl [] = (None, infos)"
  shows "b_format b = ZIP
       \<and> build E b fs = (Inl (ArchiveError (''Unknown archive format: '' @ lower (path_name p))),
                          put fs0 k (File (ZipData infos)))
       \<and> zipfile_open_r (snd (build E b fs)) p = Inr infos
       \<and> length infos = length fl
       \<and> (fl = map (\<lambda>(n, d). (SrcBytes d, n)) pairs \<longrightarrow>
            map Inr infos = map (\<lambda>(n, d). zipfile_writestr E n d) pairs)"
proof -
  from undetectable_defaults_zip[OF u] have z: "ArchiveBuilder_detect_format (path_name p) = ZIP"
    and e: "e = ArchiveError (''Unknown archive format: '' @ lower (path_name p))" by auto
  have f: "b_format b = ZIP" "b_path b = p" "files b = fl"
    using b z by (simp_all add: ArchiveBuilder_init_def)
  have i: "Archive_init p = Inl (ArchiveError (''Unknown archive format: '' @ lower (path_name p)))"
    using u e by (simp add: Archive_init_def)
  have bd: "build E b fs = (Inl (ArchiveError (''Unknown archive format: '' @ lower (path_name p))),
                          put fs0 k (File (ZipData infos)))"
    using f w i o by (simp add: build_def)
  have rd: "zipfile_open_r (put fs0 k (File (ZipData infos))) p = Inr infos"
    by (simp add: zipfile_open_r_def open_wb_then_close[OF o])
  have bq: "map Inr infos = map (\<lambda>(n, d). zipfile_writestr E n d) pairs"
    if "fl = map (\<lambda>(n, d). (SrcBytes d, n)) pairs"
    using zip_write_bytes[of E fs0 pairs "[]" infos] w that by simp
  from f bd rd zip_write_length[OF w] bq show ?thesis by simp
qed

theorem build_undetectable_path_writes_then_fails_witness:
  "b_format (add_bytes (ArchiveBuilder_init ''out.rar'' None) [1, 2] ''a.txt'') = ZIP
   \<and> fst (build sample_env (add_bytes (ArchiveBuilder_init ''out.rar'' None) [1, 2] ''a.txt'')
          \<lparr>cwd = [], tree = Map.empty, refused = posix_names\<rparr>)
     = Inl (ArchiveError ''Unknown archive format: out.rar'')
   \<and> zipfile_open_r
        (snd (build sample_env (add_bytes (ArchiveBuilder_init ''out.rar'' None) [1, 2] ''a.txt'')
          \<lparr>cwd = [], tree = Map.empty, refused = posix_names\<rparr>)) ''out.rar''
     = Inr [\<lparr>filename = ''a.txt'', file_size = 2, compress_size = 2, date_time = 0,
             zdata = [1, 2]\<rparr>]"
proof -
  let ?fs = "\<lparr>cwd = [], tree = Map.empty, refused = posix_names\<rparr>"
  let ?b = "add_bytes (ArchiveBuilder_init ''out.rar'' None) [1, 2] ''a.txt''"
  let ?i = "\<lparr>filename = ''a.txt'', file_size = 2, compress_size = 2, date_time = 0,
             zdata = [1, 2]\<rparr>"
  have u: "Archive_detect_format (path_name ''out.rar'')
           = Inl (ArchiveError ''Unknown archive format: out.rar'')"
    by (simp add: eval_defs)
  have b: "?b = (ArchiveBuilder_init ''out.rar'' None)\<lparr>files := [(SrcBytes [1, 2], ''a.txt'')]\<rparr>"
    by (simp add: add_bytes_def ArchiveBuilder_init_def)
  have o: "open_wb ?fs ''out.rar''
           = Inr ([''out.rar''], put ?fs [''out.rar''] (File (Bytes [])))"
    by (simp add: eval_defs)
  have w: "zip_write_files sample_env (put ?fs [''out.rar''] (File (Bytes [])))
             [(SrcBytes [1, 2], ''a.txt'')] [] = (None, [?i])"
    by (simp add: eval_defs)
  have l: "lower (path_name ''out.rar'') = ''out.rar''" by (simp add: eval_defs)
  note T = build_undetectable_path_writes_then_fails[OF u b o w]
  from T[THEN conjunct1] have c1: "b_format ?b = ZIP" .
  from T[THEN conjunct2, THEN conjunct1] l
  have c2: "fst (build sample_env ?b ?fs) = Inl (ArchiveError ''Unknown archive format: out.rar'')"
    by simp
  from T[THEN conjunct2, THEN conjunct2, THEN conjunct1]
  have c3: "zipfile_open_r (snd (build sample_env ?b ?fs)) ''out.rar'' = Inr [?i]" .
  from c1 c2 c3 show ?thesis by (intro conjI)
qed

text \<open>
  Claim C9. Take a builder constructed with the explicit gzip format, a target that can
  be opened for writing, and a queue of entries that the tar writer all writes.
  \<^verbatim>\<open>build()\<close> takes the tar branch in the plain mode \<^verbatim>\<open>"w"\<close>: the file it leaves at
  the target path is an uncompressed tar container, which the plain tar reader reads
  back and the gzip reader refuses; for a queue of in-memory payloads its members are
  the queued entries, in queued order.
\<close>

theorem build_gzip_format_writes_plain_tar:
  assumes b: "b = (ArchiveBuilder_init p (Some GZIP))\<lparr>files := fl\<rparr>"
    and o: "open_wb fs p = Inr (k, fs0)"
    and w: "tar_write_files E fs0 fl [] = (None, infos)"
  shows "build E b fs = (Archive_init p, put fs0 k (File (TarData infos)))
       \<and> open_rb (snd (build E b fs)) p = Inr (TarData infos)
       \<and> tarfile_open_r (snd (build E b fs)) p ''r'' = Inr infos
       \<and> gzip_read (TarData infos) = Inl BadGzipFile
       \<and> (fl = map (\<lambda>(n, d). (SrcBytes d, n)) pairs \<longrightarrow>
            infos = map (\<lambda>(n, d). tarfile_addfile ((TarInfo_init n)\<lparr>tsize := length d\<rparr>) d) pairs)"
proof -
  have f: "b_format b = GZIP" "b_path b = p" "files b = fl"
    using b by (simp_all add: ArchiveBuilder_init_def)
  have bd: "build E b fs = (Archive_init p, put fs0 k (File (TarData infos)))"
    using f w o by (simp add: build_def tar_encode_def)
  have rd: "open_rb (put fs0 k (File (TarData infos))) p = Inr (TarData infos)"
    by (rule open_wb_then_close[OF o])
  have bq: "infos = map (\<lambda>(n, d). tarfile_addfile ((TarInfo_init n)\<lparr>tsize := length d\<rparr>) d) pairs"
    if "fl = map (\<lambda>(n, d). (SrcBytes d, n)) pairs"
    using tar_write_length_bytes[of E fs0 pairs "[]"] w that by simp
  from bd rd bq show ?thesis by (simp add: tarfile_open_r_def)
qed

theorem build_gzip_format_writes_plain_tar_witness:
  "fst (build sample_env (add_bytes (ArchiveBuilder_init ''out.gz'' (Some GZIP)) [1, 2] ''a.txt'')
          \<lparr>cwd = [], tree = Map.empty, refused = posix_names\<rparr>)
     = Inr \<lparr>path = ''out.gz'', format = GZIP\<rparr>
   \<and> open_rb
        (snd (build sample_env
               (add_bytes (ArchiveBuilder_init ''out.gz'' (Some GZIP)) [1, 2] ''a.txt'')
               \<lparr>cwd = [], tree = Map.empty, refused = posix_names\<rparr>)) ''out.gz''
     = Inr (TarData [\<lparr>tname = ''a.txt'', tsize = 2, mtime = 0, ttype = REGTYPE, linkname = [],
                      tmode = 420, tdata = [1, 2]\<rparr>])
   \<and> tarfile_open_r
        (snd (build sample_env
               (add_bytes (ArchiveBuilder_init ''out.gz'' (Some GZIP)) [1, 2] ''a.txt'')
               \<lparr>cwd = [], tree = Map.empty, refused = posix_names\<rparr>)) ''out.gz'' ''r''
     = Inr [\<lparr>tname = ''a.txt'', tsize = 2, mtime = 0, ttype = REGTYPE, linkname = [],
             tmode = 420, tdata = [1, 2]\<rparr>]
   \<and> gzip_read (TarData [\<lparr>tname = ''a.txt'', tsize = 2, mtime = 0, ttype = REGTYPE,
                            linkname = [], tmode = 420, tdata = [1, 2]\<rparr>])
     = Inl BadGzipFile"
proof -
  let ?fs = "\<lparr>cwd = [], tree = Map.empty, refused = posix_names\<rparr>"
  let ?b = "add_bytes (ArchiveBuilder_init ''out.gz'' (Some GZIP)) [1, 2] ''a.txt''"
  let ?i = "\<lparr>tname = ''a.txt'', tsize = 2, mtime = 0, ttype = REGTYPE, linkname = [],
             tmode = 420, tdata = [1, 2]\<rparr>"
  have b: "?b = (ArchiveBuilder_init ''out.gz'' (Some GZIP))\<lparr>files := [(SrcBytes [1, 2], ''a.txt'')]\<rparr>"
    by (simp add: add_bytes_def ArchiveBuilder_init_def)
  have o: "open_wb ?fs ''out.gz''
           = Inr ([''out.gz''], put ?fs [''out.gz''] (File (Bytes [])))"
    by (simp add: eval_defs)
  have w: "tar_write_files sample_env (put ?fs [''out.gz''] (File (Bytes [])))
             [(SrcBytes [1, 2], ''a.txt'')] [] = (None, [?i])"
    by (simp add: eval_defs)
  have i: "Archive_init ''out.gz'' = Inr \<lparr>path = ''out.gz'', format = GZIP\<rparr>"
    by (simp add: eval_defs)
  note T = build_gzip_format_writes_plain_tar[OF b o w]
  from T[THEN conjunct1] i
  have c1: "fst (build sample_env ?b ?fs) = Inr \<lparr>path = ''out.gz'', format = GZIP\<rparr>"
    by simp
  from T[THEN conjunct2, THEN conjunct1]
  have c2: "open_rb (snd (build sample_env ?b ?fs)) ''out.gz'' = Inr (TarData [?i])" .
  from T[THEN conjunct2, THEN conjunct2, THEN conjunct1]
  have c3: "tarfile_open_r (snd (build sample_env ?b ?fs)) ''out.gz'' ''r'' = Inr [?i]" .
  from T[THEN conjunct2, THEN conjunct2, THEN conjunct2, THEN conjunct1]
  have c4: "gzip_read (TarData [?i]) = Inl BadGzipFile" .
  from c1 c2 c3 c4 show ?thesis by (intro conjI)
qed

subsection \<open>Round trip\<close>

text \<open>
  Claim C1, as stated, fails. A builder over \<^verbatim>\<open>out.gz\<close> defaults to zip, and the
  archive it returns has the gzip format and lists nothing. Of two payloads queued under
  one name the readers return the second. The zip writer ends a name at its first NUL
  character and raises \<^verbatim>\<open>IndexError\<close> on the empty name. The tar reader looks a name
  up without its trailing slashes, so a single entry \<^verbatim>\<open>a/\<close> is listed and not found.
  And a target that is a directory cannot be opened.
\<close>

theorem roundtrip_fails:
  "Archive_list \<lparr>path = ''out.gz'', format = GZIP\<rparr>
      (snd (build sample_env (add_bytes (ArchiveBuilder_init ''out.gz'' None) [1] ''a.txt'')
              \<lparr>cwd = [], tree = Map.empty, refused = posix_names\<rparr>))
     = Inr []
   \<and> fst (build sample_env (add_bytes (ArchiveBuilder_init ''out.gz'' None) [1] ''a.txt'')
              \<lparr>cwd = [], tree = Map.empty, refused = posix_names\<rparr>)
     = Inr \<lparr>path = ''out.gz'', format = GZIP\<rparr>
   \<and> fst (build sample_env
            (add_bytes (add_bytes (ArchiveBuilder_init ''out.zip'' None) [1] ''a.txt'') [2] ''a.txt'')
              \<lparr>cwd = [], tree = Map.empty, refused = posix_names\<rparr>)
     = Inr \<lparr>path = ''out.zip'', format = ZIP\<rparr>
   \<and> Archive_read sample_env \<lparr>path = ''out.zip'', format = ZIP\<rparr> ''a.txt''
      (snd (build sample_env
            (add_bytes (add_bytes (ArchiveBuilder_init ''out.zip'' None) [1] ''a.txt'') [2] ''a.txt'')
              \<lparr>cwd = [], tree = Map.empty, refused = posix_names\<rparr>))
     = Inr [2]
   \<and> map_sum id (map name) (Archive_list \<lparr>path = ''out.zip'', format = ZIP\<rparr>
      (snd (build sample_env
            (add_bytes (ArchiveBuilder_init ''out.zip'' None) [1] [CHR ''a'', CHR 0x00, CHR ''b''])
              \<lparr>cwd = [], tree = Map.empty, refused = posix_names\<rparr>)))
     = Inr [''a'']
   \<and> build sample_env (add_bytes (ArchiveBuilder_init ''out.zip'' None) [1] [])
              \<lparr>cwd = [], tree = Map.empty, refused = posix_names\<rparr>
     = (Inl IndexError,
        \<lparr>cwd = [], tree = [[''out.zip''] \<mapsto> File (ZipData [])], refused = posix_names\<rparr>)
   \<and> map_sum id (map name) (Archive_list \<lparr>path = ''out.tar'', format = TAR\<rparr>
      (snd (build sample_env (add_bytes (ArchiveBuilder_init ''out.tar'' None) [1] ''a/'')
              \<lparr>cwd = [], tree = Map.empty, refused = posix_names\<rparr>)))
     = Inr [''a/'']
   \<and> Archive_read sample_env \<lparr>path = ''out.tar'', format = TAR\<rparr> ''a/''
      (snd (build sample_env (add_bytes (ArchiveBuilder_init ''out.tar'' None) [1] ''a/'')
              \<lparr>cwd = [], tree = Map.empty, refused = posix_names\<rparr>))
     = Inl (KeyError ''a/'')
   \<and> build sample_env (add_bytes (ArchiveBuilder_init ''out.zip'' None) [1] ''a.txt'')
              \<lparr>cwd = [], tree = [[''out.zip''] \<mapsto> Dir], refused = posix_names\<rparr>
     = (Inl IsADirectoryError,
        \<lparr>cwd = [], tree = [[''out.zip''] \<mapsto> Dir], refused = posix_names\<rparr>)"
  by (simp add: eval_defs build_defs)

lemma find_last_payload:
  "\<forall>(n, d)\<in>set xs. key (mk (n, d)) = n \<Longrightarrow> map_of xs x = Some d \<Longrightarrow>
   find (\<lambda>i. key i = x) (map mk xs) = Some (mk (x, d))"
  by (induction xs) (auto split: if_splits)

lemma find_last_payload_rev:
  assumes "\<forall>(n, d)\<in>set pairs. key (mk (n, d)) = n" "map_of (rev pairs) x = Some d"
  shows "find (\<lambda>i. key i = x) (rev (map mk pairs)) = Some (mk (x, d))"
  using find_last_payload[of "rev pairs" key mk x d] assms by (simp add: rev_map)

lemma zip_write_stored:
  "list_all (\<lambda>(n, d). stores_name ZIP n) pairs \<Longrightarrow>
   zip_write_files E fs (map (\<lambda>(n, d). (SrcBytes d, n)) pairs) acc
     = (None, acc @ map (\<lambda>(n, d). \<lparr>filename = n, file_size = length d,
                                   compress_size = deflated_size E d, date_time = clock E,
                                   zdata = d\<rparr>) pairs)"
  by (induction pairs arbitrary: acc)
     (auto simp: stores_name_def zipfile_writestr_def Let_def)

lemma tar_reads_back:
  "w \<noteq> ZIP \<Longrightarrow> reads_back w r \<Longrightarrow>
   is_tar_format r \<and> r \<noteq> ZIP
   \<and> tar_decode (Archive_tar_mode \<lparr>path = p, format = r\<rparr> ''r'')
        (tar_encode (if w = TAR_GZ then ''w:gz'' else if w = TAR_BZ2 then ''w:bz2''
                     else if w = TAR_XZ then ''w:xz'' else ''w'') infos) = Inr infos"
  by (cases w; cases r)
     (simp_all add: reads_back_def is_tar_format_def Archive_tar_mode_def tar_encode_def)

lemma roundtrip_zip:
  assumes b: "b = foldl (\<lambda>b (n, d). add_bytes b d n) (ArchiveBuilder_init p fmt) pairs"
    and r: "Archive_detect_format (path_name p) = Inr ZIP"
    and o: "open_wb fs p = Inr (k, fs0)"
    and w: "b_format b = ZIP"
    and s: "list_all (\<lambda>(n, d). stores_name ZIP n) pairs"
    and l: "list_all (\<lambda>(n, d). map_of (rev pairs) n = Some d) pairs"
  shows "\<exists>a es. fst (build E b fs) = Inr a \<and> path a = p \<and> format a = ZIP
           \<and> Archive_list a (snd (build E b fs)) = Inr es
           \<and> map name es = map fst pairs \<and> map size es = map (length \<circ> snd) pairs
           \<and> list_all (\<lambda>(n, d). Archive_read E a n (snd (build E b fs)) = Inr d) pairs"
proof -
  let ?mk = "\<lambda>(n, d). \<lparr>filename = n, file_size = length d,
                       compress_size = deflated_size E d, date_time = clock E, zdata = d\<rparr>"
  let ?infos = "map ?mk pairs"
  let ?a = "\<lparr>path = p, format = ZIP\<rparr>"
  let ?fs = "put fs0 k (File (ZipData ?infos))"
  have f: "b_path b = p" "files b = map (\<lambda>(n, d). (SrcBytes d, n)) pairs"
    using add_bytes_queue[of "ArchiveBuilder_init p fmt" pairs] b
    by (simp_all add: builder_fields)
  have wr: "zip_write_files E fs0 (files b) [] = (None, ?infos)"
    using zip_write_stored[OF s, of E fs0 "[]"] f by simp
  have i: "Archive_init p = Inr ?a" using r by (simp add: Archive_init_def)
  have bd: "build E b fs = (Inr ?a, ?fs)" using f w wr i o by (simp add: build_def)
  have op: "zipfile_open_r ?fs p = Inr ?infos"
    by (simp add: zipfile_open_r_def open_wb_then_close[OF o])
  have li: "Archive_list ?a ?fs = Inr (map zip_entry ?infos)"
    using op by (simp add: Archive_list_def)
  have nm: "map name (map zip_entry ?infos) = map fst pairs"
    by (induction pairs) (auto simp: zip_entry_def)
  have sz: "map size (map zip_entry ?infos) = map (length \<circ> snd) pairs"
    by (induction pairs) (auto simp: zip_entry_def)
  have k: "\<forall>(n, d)\<in>set pairs. filename (?mk (n, d)) = n" by auto
  have rd: "Archive_read E ?a n ?fs = Inr d" if "map_of (rev pairs) n = Some d" for n d
    using find_last_payload_rev[of pairs filename ?mk n d, OF k that] op
    by (simp add: Archive_read_def zipfile_read_def zipfile_getinfo_def)
  have rds: "list_all (\<lambda>(n, d). Archive_read E ?a n ?fs = Inr d) pairs"
    using l rd by (auto simp: list_all_iff)
  from bd li nm sz rds show ?thesis by simp
qed

lemma roundtrip_tar:
  assumes b: "b = foldl (\<lambda>b (n, d). add_bytes b d n) (ArchiveBuilder_init p fmt) pairs"
    and r: "Archive_detect_format (path_name p) = Inr rf"
    and o: "open_wb fs p = Inr (k, fs0)"
    and w: "b_format b \<noteq> ZIP"
    and rb: "reads_back (b_format b) rf"
    and s: "list_all (\<lambda>(n, d). stores_name (b_format b) n) pairs"
    and l: "list_all (\<lambda>(n, d). map_of (rev pairs) (rstrip_slash n) = Some d) pairs"
  shows "\<exists>a es. fst (build E b fs) = Inr a \<and> path a = p \<and> format a = rf
           \<and> Archive_list a (snd (build E b fs)) = Inr es
           \<and> map name es = map fst pairs \<and> map size es = map (length \<circ> snd) pairs
           \<and> list_all (\<lambda>(n, d). Archive_read E a n (snd (build E b fs)) = Inr d) pairs"
proof -
  let ?mk = "\<lambda>(n, d). tarfile_addfile ((TarInfo_init n)\<lparr>tsize := length d\<rparr>) d"
  let ?infos = "map ?mk pairs"
  let ?a = "\<lparr>path = p, format = rf\<rparr>"
  let ?m = "if b_format b = TAR_GZ then ''w:gz'' else if b_format b = TAR_BZ2 then ''w:bz2''
            else if b_format b = TAR_XZ then ''w:xz'' else ''w''"
  let ?fs = "put fs0 k (File (tar_encode ?m ?infos))"
  have f: "b_path b = p" "files b = map (\<lambda>(n, d). (SrcBytes d, n)) pairs"
    using add_bytes_queue[of "ArchiveBuilder_init p fmt" pairs] b
    by (simp_all add: builder_fields)
  have wr: "tar_write_files E fs0 (files b) [] = (None, ?infos)"
    using tar_write_length_bytes[of E fs0 pairs "[]"] f by simp
  have i: "Archive_init p = Inr ?a" using r by (simp add: Archive_init_def)
  have bd: "build E b fs = (Inr ?a, ?fs)" using f w wr i o by (simp add: build_def Let_def)
  from tar_reads_back[OF w rb, of p ?infos]
  have t: "is_tar_format rf" and nz: "rf \<noteq> ZIP"
    and dc: "tar_decode (Archive_tar_mode ?a ''r'') (tar_encode ?m ?infos) = Inr ?infos"
    by auto
  have op: "tarfile_open_r ?fs p (Archive_tar_mode ?a ''r'') = Inr ?infos"
    using dc by (simp add: tarfile_open_r_def open_wb_then_close[OF o])
  have li: "Archive_list ?a ?fs = Inr (map tar_entry ?infos)"
    using op t nz by (simp add: Archive_list_def)
  from s w have st: "\<forall>(n, d)\<in>set pairs. tar_header_name n = n"
    by (auto simp: list_all_iff stores_name_def)
  then have k: "\<forall>(n, d)\<in>set pairs. tname (?mk (n, d)) = n"
    by (auto simp: tarfile_addfile_def TarInfo_init_def)
  have nm: "map name (map tar_entry ?infos) = map fst pairs"
    using k by (induction pairs) (auto simp: tar_entry_def)
  have sz: "map size (map tar_entry ?infos) = map (length \<circ> snd) pairs"
    by (induction pairs) (auto simp: tar_entry_def tarfile_addfile_def TarInfo_init_def)
  have rd: "Archive_read E ?a n ?fs = Inr d" if "map_of (rev pairs) (rstrip_slash n) = Some d" for n d
    using find_last_payload_rev[of pairs tname ?mk "rstrip_slash n" d, OF k that] op t nz
    by (simp add: Archive_read_def tarfile_getmember_def tarfile_extractfile_def
        tarfile_addfile_def TarInfo_init_def)
  have rds: "list_all (\<lambda>(n, d). Archive_read E ?a n ?fs = Inr d) pairs"
    using l rd by (auto simp: list_all_iff)
  from bd li nm sz rds show ?thesis by simp
qed

lemma roundtrip_empty_gzip:
  assumes b: "b = ArchiveBuilder_init p fmt"
    and r: "Archive_detect_format (path_name p) = Inr GZIP"
    and o: "open_wb fs p = Inr (k, fs0)"
  shows "\<exists>a. fst (build E b fs) = Inr a \<and> path a = p \<and> format a = GZIP
           \<and> Archive_list a (snd (build E b fs)) = Inr []"
proof -
  have f: "b_path b = p" "files b = []" using b by (simp_all add: builder_fields)
  have i: "Archive_init p = Inr \<lparr>path = p, format = GZIP\<rparr>"
    using r by (simp add: Archive_init_def)
  have "fst (build E b fs) = Inr \<lparr>path = p, format = GZIP\<rparr>"
    using f i o by (simp add: build_def Let_def)
  then show ?thesis by (simp add: Archive_list_def is_tar_format_def)
qed

text \<open>
  Claim C1, amended. Queue a finite sequence of named payloads with \<^verbatim>\<open>add_bytes\<close> on
  a builder whose target has a name the read side recognises and can be opened for
  writing. If the detected read format reads back what the builder's format writes, the
  writer stores every queued name, and every queued payload is the one queued last
  under the name the reader looks up, then \<^verbatim>\<open>build()\<close> returns the archive,
  \<^verbatim>\<open>list()\<close> yields the queued names in queued order with the payload lengths as
  sizes, and \<^verbatim>\<open>read(name)\<close> returns the queued bytes for every queued name. If
  nothing is queued and the detected read format is plain gzip, \<^verbatim>\<open>build()\<close> returns
  the archive and \<^verbatim>\<open>list()\<close> yields nothing.
\<close>

theorem build_list_read_roundtrip:
  assumes b: "b = foldl (\<lambda>b (n, d). add_bytes b d n) (ArchiveBuilder_init p fmt) pairs"
    and r: "Archive_detect_format (path_name p) = Inr rf"
    and o: "open_wb fs p = Inr (k, fs0)"
  shows "(reads_back (b_format b) rf \<longrightarrow>
          list_all (\<lambda>(n, d). stores_name (b_format b) n) pairs \<longrightarrow>
          list_all (\<lambda>(n, d). map_of (rev pairs) (lookup_name rf n) = Some d) pairs \<longrightarrow>
          (\<exists>a es. fst (build E b fs) = Inr a \<and> path a = p \<and> format a = rf
             \<and> Archive_list a (snd (build E b fs)) = Inr es
             \<and> map name es = map fst pairs \<and> map size es = map (length \<circ> snd) pairs
             \<and> list_all (\<lambda>(n, d). Archive_read E a n (snd (build E b fs)) = Inr d) pairs))
       \<and> (rf = GZIP \<longrightarrow> pairs = [] \<longrightarrow>
          (\<exists>a. fst (build E b fs) = Inr a \<and> path a = p \<and> format a = rf
             \<and> Archive_list a (snd (build E b fs)) = Inr []))"
proof (intro conjI impI)
  assume rb: "reads_back (b_format b) rf"
    and s: "list_all (\<lambda>(n, d). stores_name (b_format b) n) pairs"
    and l: "list_all (\<lambda>(n, d). map_of (rev pairs) (lookup_name rf n) = Some d) pairs"
  show "\<exists>a es. fst (build E b fs) = Inr a \<and> path a = p \<and> format a = rf
             \<and> Archive_list a (snd (build E b fs)) = Inr es
             \<and> map name es = map fst pairs \<and> map size es = map (length \<circ> snd) pairs
             \<and> list_all (\<lambda>(n, d). Archive_read E a n (snd (build E b fs)) = Inr d) pairs"
  proof (cases "b_format b = ZIP")
    case True
    with rb have z: "rf = ZIP" by (simp add: reads_back_def)
    from s True have s': "list_all (\<lambda>(n, d). stores_name ZIP n) pairs" by simp
    from l z have l': "list_all (\<lambda>(n, d). map_of (rev pairs) n = Some d) pairs"
      by (simp add: lookup_name_def)
    from roundtrip_zip[OF b r[unfolded z] o True s' l', of E] z show ?thesis by simp
  next
    case False
    from tar_reads_back[OF False rb] have "rf \<noteq> ZIP" by simp
    with l have l': "list_all (\<lambda>(n, d). map_of (rev pairs) (rstrip_slash n) = Some d) pairs"
      by (simp add: lookup_name_def)
    from roundtrip_tar[OF b r o False rb s l'] show ?thesis .
  qed
next
  assume g: "rf = GZIP" and e: "pairs = []"
  from b e have b': "b = ArchiveBuilder_init p fmt" by simp
  from roundtrip_empty_gzip[OF b' r[unfolded g] o, of E] g
  show "\<exists>a. fst (build E b fs) = Inr a \<and> path a = p \<and> format a = rf
             \<and> Archive_list a (snd (build E b fs)) = Inr []"
    by simp
qed

theorem build_list_read_roundtrip_witness:
  "(\<exists>a es. fst (build sample_env
               (add_bytes (add_bytes (ArchiveBuilder_init ''out.zip'' None) [72, 105] ''a.txt'')
                  [33] ''d/b.txt'')
               \<lparr>cwd = [], tree = Map.empty, refused = posix_names\<rparr>) = Inr a
      \<and> path a = ''out.zip'' \<and> format a = ZIP
      \<and> Archive_list a (snd (build sample_env
               (add_bytes (add_bytes (ArchiveBuilder_init ''out.zip'' None) [72, 105] ''a.txt'')
                  [33] ''d/b.txt'')
               \<lparr>cwd = [], tree = Map.empty, refused = posix_names\<rparr>)) = Inr es
      \<and> map name es = [''a.txt'', ''d/b.txt''] \<and> map size es = [2, 1]
      \<and> Archive_read sample_env a ''a.txt'' (snd (build sample_env
               (add_bytes (add_bytes (ArchiveBuilder_init ''out.zip'' None) [72, 105] ''a.txt'')
                  [33] ''d/b.txt'')
               \<lparr>cwd = [], tree = Map.empty, refused = posix_names\<rparr>)) = Inr [72, 105]
      \<and> Archive_read sample_env a ''d/b.txt'' (snd (build sample_env
               (add_bytes (add_bytes (ArchiveBuilder_init ''out.zip'' None) [72, 105] ''a.txt'')
                  [33] ''d/b.txt'')
               \<lparr>cwd = [], tree = Map.empty, refused = posix_names\<rparr>)) = Inr [33])
   \<and> (\<exists>a es. fst (build sample_env
               (add_bytes (add_bytes (ArchiveBuilder_init ''q.tar'' (Some TAR_GZ)) [7] ''a'') [7] ''a/'')
               \<lparr>cwd = [], tree = Map.empty, refused = posix_names\<rparr>) = Inr a
      \<and> path a = ''q.tar'' \<and> format a = TAR
      \<and> Archive_list a (snd (build sample_env
               (add_bytes (add_bytes (ArchiveBuilder_init ''q.tar'' (Some TAR_GZ)) [7] ''a'') [7] ''a/'')
               \<lparr>cwd = [], tree = Map.empty, refused = posix_names\<rparr>)) = Inr es
      \<and> map name es = [''a'', ''a/''] \<and> map size es = [1, 1]
      \<and> Archive_read sample_env a ''a'' (snd (build sample_env
               (add_bytes (add_bytes (ArchiveBuilder_init ''q.tar'' (Some TAR_GZ)) [7] ''a'') [7] ''a/'')
               \<lparr>cwd = [], tree = Map.empty, refused = posix_names\<rparr>)) = Inr [7]
      \<and> Archive_read sample_env a ''a/'' (snd (build sample_env
               (add_bytes (add_bytes (ArchiveBuilder_init ''q.tar'' (Some TAR_GZ)) [7] ''a'') [7] ''a/'')
               \<lparr>cwd = [], tree = Map.empty, refused = posix_names\<rparr>)) = Inr [7])
   \<and> (\<exists>a. fst (build sample_env (ArchiveBuilder_init ''e.gz'' None)
               \<lparr>cwd = [], tree = Map.empty, refused = posix_names\<rparr>) = Inr a
      \<and> path a = ''e.gz'' \<and> format a = GZIP
      \<and> Archive_list a (snd (build sample_env (ArchiveBuilder_init ''e.gz'' None)
               \<lparr>cwd = [], tree = Map.empty, refused = posix_names\<rparr>)) = Inr [])"
proof -
  let ?fs = "\<lparr>cwd = [], tree = Map.empty, refused = posix_names\<rparr>"
  let ?pz = "[(''a.txt'', [72, 105]), (''d/b.txt'', [33])] :: (string \<times> bytes) list"
  let ?bz = "add_bytes (add_bytes (ArchiveBuilder_init ''out.zip'' None) [72, 105] ''a.txt'')
               [33] ''d/b.txt''"
  let ?pt = "[(''a'', [7]), (''a/'', [7])] :: (string \<times> bytes) list"
  let ?bt = "add_bytes (add_bytes (ArchiveBuilder_init ''q.tar'' (Some TAR_GZ)) [7] ''a'') [7] ''a/''"
  let ?bg = "ArchiveBuilder_init ''e.gz'' None"
  have bz: "?bz = foldl (\<lambda>b (n, d). add_bytes b d n) (ArchiveBuilder_init ''out.zip'' None) ?pz"
    by simp
  have rz: "Archive_detect_format (path_name ''out.zip'') = Inr ZIP" by (simp add: eval_defs)
  have oz: "open_wb ?fs ''out.zip'' = Inr ([''out.zip''], put ?fs [''out.zip''] (File (Bytes [])))"
    by (simp add: eval_defs)
  have fz: "b_format ?bz = ZIP" by (simp add: eval_defs)
  have z1: "reads_back (b_format ?bz) ZIP" by (simp add: fz reads_back_def)
  have z2: "list_all (\<lambda>(n, d). stores_name (b_format ?bz) n) ?pz"
    by (simp add: fz stores_name_def sanitize_filename_def utf8_length_def)
  have z3: "list_all (\<lambda>(n, d). map_of (rev ?pz) (lookup_name ZIP n) = Some d) ?pz"
    by (simp add: lookup_name_def)
  note Z = build_list_read_roundtrip[where E = sample_env, OF bz rz oz, THEN conjunct1,
      rule_format, OF z1 z2 z3]
  have bt: "?bt = foldl (\<lambda>b (n, d). add_bytes b d n) (ArchiveBuilder_init ''q.tar'' (Some TAR_GZ)) ?pt"
    by simp
  have rt: "Archive_detect_format (path_name ''q.tar'') = Inr TAR" by (simp add: eval_defs)
  have ot: "open_wb ?fs ''q.tar'' = Inr ([''q.tar''], put ?fs [''q.tar''] (File (Bytes [])))"
    by (simp add: eval_defs)
  have ft: "b_format ?bt = TAR_GZ" by (simp add: eval_defs)
  have t1: "reads_back (b_format ?bt) TAR" by (simp add: ft reads_back_def)
  have t2: "list_all (\<lambda>(n, d). stores_name (b_format ?bt) n) ?pt"
    by (simp add: ft stores_name_def tar_header_name_def)
  have t3: "list_all (\<lambda>(n, d). map_of (rev ?pt) (lookup_name TAR n) = Some d) ?pt"
    by (simp add: lookup_name_def rstrip_slash_def)
  note T = build_list_read_roundtrip[where E = sample_env, OF bt rt ot, THEN conjunct1,
      rule_format, OF t1 t2 t3]
  have bg: "?bg = foldl (\<lambda>b (n, d). add_bytes b d n) (ArchiveBuilder_init ''e.gz'' None) []"
    by simp
  have rg: "Archive_detect_format (path_name ''e.gz'') = Inr GZIP" by (simp add: eval_defs)
  have og: "open_wb ?fs ''e.gz'' = Inr ([''e.gz''], put ?fs [''e.gz''] (File (Bytes [])))"
    by (simp add: eval_defs)
  note G = build_list_read_roundtrip[where E = sample_env, OF bg rg og, THEN conjunct2,
      rule_format, OF refl refl]
  from Z have Z': "\<exists>a es. fst (build sample_env ?bz ?fs) = Inr a
      \<and> path a = ''out.zip'' \<and> format a = ZIP
      \<and> Archive_list a (snd (build sample_env ?bz ?fs)) = Inr es
      \<and> map name es = [''a.txt'', ''d/b.txt''] \<and> map size es = [2, 1]
      \<and> Archive_read sample_env a ''a.txt'' (snd (build sample_env ?bz ?fs)) = Inr [72, 105]
      \<and> Archive_read sample_env a ''d/b.txt'' (snd (build sample_env ?bz ?fs)) = Inr [33]"
    by (elim exE conjE, intro exI conjI) (assumption | simp add: eval_nat_numeral)+
  from T have T': "\<exists>a es. fst (build sample_env ?bt ?fs) = Inr a
      \<and> path a = ''q.tar'' \<and> format a = TAR
      \<and> Archive_list a (snd (build sample_env ?bt ?fs)) = Inr es
      \<and> map name es = [''a'', ''a/''] \<and> map size es = [1, 1]
      \<and> Archive_read sample_env a ''a'' (snd (build sample_env ?bt ?fs)) = Inr [7]
      \<and> Archive_read sample_env a ''a/'' (snd (build sample_env ?bt ?fs)) = Inr [7]"
    by (elim exE conjE, intro exI conjI) (assumption | simp add: eval_nat_numeral)+
  from Z' T' G show ?thesis by blast
qed

end
